theory Spec2Isabelle
  imports Complex_Main "HOL-Library.Monad_Syntax"
begin

section \<open>Data model (types.ts)\<close>

text \<open>
  The number type of the source is the IEEE double. It is idealised here as \<^typ>\<open>real\<close>:
  rounding, overflow and the non-finite values are outside the model, so every statement
  about a quotient is made where its divisor is not zero. The fields \<open>x\<close> and \<open>y\<close>
  of a point are called \<open>xc\<close> and \<open>yc\<close>, and the field \<open>id\<close> of a component
  \<open>ident\<close>, since the short names are used for variables and for the identity function.
\<close>

record Point =
  xc :: real
  yc :: real

type_synonym mat2 = "(real \<times> real) \<times> (real \<times> real)"

definition m00 :: "mat2 \<Rightarrow> real" where "m00 s = fst (fst s)"
definition m01 :: "mat2 \<Rightarrow> real" where "m01 s = snd (fst s)"
definition m10 :: "mat2 \<Rightarrow> real" where "m10 s = fst (snd s)"
definition m11 :: "mat2 \<Rightarrow> real" where "m11 s = snd (snd s)"

record GMMComponent =
  mu :: "real \<times> real"
  sigma :: mat2
  weight :: real
  ident :: int

section \<open>Target density (services/distribution.ts)\<close>

text \<open>\<open>getGaussianProps\<close>: determinant and closed-form inverse of the covariance.\<close>

definition getGaussianProps :: "GMMComponent \<Rightarrow> real \<times> mat2" where
  "getGaussianProps g =
     (let det = m00 (sigma g) * m11 (sigma g) - m01 (sigma g) * m10 (sigma g);
          invSig = ((m11 (sigma g) / det, - m01 (sigma g) / det),
                    (- m10 (sigma g) / det, m00 (sigma g) / det))
      in (det, invSig))"

text \<open>
  The body of the \<open>forEach\<close> of \<open>getLogProb\<close>: one component added to the running
  \<open>sumProb\<close>.
\<close>

definition logProb_body :: "Point \<Rightarrow> real \<Rightarrow> GMMComponent \<Rightarrow> real" where
  "logProb_body pt sumProb g =
     (let (det, invSig) = getGaussianProps g;
          dx0 = xc pt - fst (mu g);
          dx1 = yc pt - snd (mu g);
          mahalanobis =
            dx0 * (m00 invSig * dx0 + m01 invSig * dx1) +
            dx1 * (m10 invSig * dx0 + m11 invSig * dx1);
          nrm = 1 / (2 * pi * sqrt \<bar>det\<bar>)
      in sumProb + weight g * nrm * exp (- 0.5 * mahalanobis))"

definition getLogProb :: "Point \<Rightarrow> GMMComponent list \<Rightarrow> real" where
  "getLogProb pt components = ln (foldl (logProb_body pt) 0 components + 1 / 10 ^ 20)"

text \<open>
  The body of the \<open>forEach\<close> of \<open>getGradLogProb\<close>; the state is
  \<open>(sumProb, gradSum[0], gradSum[1])\<close>.
\<close>

definition gradLogProb_body ::
  "Point \<Rightarrow> real \<times> real \<times> real \<Rightarrow> GMMComponent \<Rightarrow> real \<times> real \<times> real" where
  "gradLogProb_body pt acc g =
     (let (sumProb, gradSum0, gradSum1) = acc;
          (det, invSig) = getGaussianProps g;
          dx0 = xc pt - fst (mu g);
          dx1 = yc pt - snd (mu g);
          mahalanobis =
            dx0 * (m00 invSig * dx0 + m01 invSig * dx1) +
            dx1 * (m10 invSig * dx0 + m11 invSig * dx1);
          nrm = 1 / (2 * pi * sqrt \<bar>det\<bar>);
          density = weight g * nrm * exp (- 0.5 * mahalanobis);
          gradExp0 = - (m00 invSig * dx0 + m01 invSig * dx1);
          gradExp1 = - (m10 invSig * dx0 + m11 invSig * dx1)
      in (sumProb + density, gradSum0 + density * gradExp0, gradSum1 + density * gradExp1))"

definition getGradLogProb :: "Point \<Rightarrow> GMMComponent list \<Rightarrow> Point" where
  "getGradLogProb pt components =
     (let (sumProb, gradSum0, gradSum1) = foldl (gradLogProb_body pt) (0, 0, 0) components;
          safeProb = sumProb + 1 / 10 ^ 20
      in \<lparr>xc = gradSum0 / safeProb, yc = gradSum1 / safeProb\<rparr>)"

text \<open>\<open>DEFAULT_GMM\<close> of the source.\<close>

definition DEFAULT_GMM :: "GMMComponent list" where
  "DEFAULT_GMM =
     [\<lparr>mu = (- 2, - 2), sigma = ((1.0, 0.5), (0.5, 1.0)), weight = 0.4, ident = 1\<rparr>,
      \<lparr>mu = (2, 2), sigma = ((1.2, - 0.6), (- 0.6, 1.2)), weight = 0.6, ident = 2\<rparr>]"

subsection \<open>The density as the specification words it\<close>

text \<open>
  These definitions follow the specification, not the code: the determinant, the inverse as
  the adjugate scaled by \<open>1/det\<close>, the quadratic form \<open>dx\<^sup>T \<Sigma>\<^sup>-\<^sup>1 dx\<close> through a
  matrix-vector product and a dot product, and sums over the component list.
\<close>

definition spec_det :: "mat2 \<Rightarrow> real" where
  "spec_det s = m00 s * m11 s - m01 s * m10 s"

definition mat_scale :: "real \<Rightarrow> mat2 \<Rightarrow> mat2" where
  "mat_scale c s = ((c * m00 s, c * m01 s), (c * m10 s, c * m11 s))"

definition mat_mul :: "mat2 \<Rightarrow> mat2 \<Rightarrow> mat2" where
  "mat_mul a b =
     ((m00 a * m00 b + m01 a * m10 b, m00 a * m01 b + m01 a * m11 b),
      (m10 a * m00 b + m11 a * m10 b, m10 a * m01 b + m11 a * m11 b))"

definition mat_one :: mat2 where
  "mat_one = ((1, 0), (0, 1))"

definition mat_vec :: "mat2 \<Rightarrow> real \<times> real \<Rightarrow> real \<times> real" where
  "mat_vec a v = (m00 a * fst v + m01 a * snd v, m10 a * fst v + m11 a * snd v)"

definition dot2 :: "real \<times> real \<Rightarrow> real \<times> real \<Rightarrow> real" where
  "dot2 v w = fst v * fst w + snd v * snd w"

definition spec_inverse :: "mat2 \<Rightarrow> mat2" where
  "spec_inverse s = mat_scale (1 / spec_det s) ((m11 s, - m01 s), (- m10 s, m00 s))"

definition spec_dx :: "Point \<Rightarrow> GMMComponent \<Rightarrow> real \<times> real" where
  "spec_dx pt g = (xc pt - fst (mu g), yc pt - snd (mu g))"

definition spec_mahalanobis :: "Point \<Rightarrow> GMMComponent \<Rightarrow> real" where
  "spec_mahalanobis pt g = dot2 (spec_dx pt g) (mat_vec (spec_inverse (sigma g)) (spec_dx pt g))"

definition spec_density :: "Point \<Rightarrow> GMMComponent \<Rightarrow> real" where
  "spec_density pt g =
     weight g * (1 / (2 * pi * sqrt \<bar>spec_det (sigma g)\<bar>)) * exp (- 0.5 * spec_mahalanobis pt g)"

definition spec_local_grad :: "Point \<Rightarrow> GMMComponent \<Rightarrow> real \<times> real" where
  "spec_local_grad pt g =
     (- fst (mat_vec (spec_inverse (sigma g)) (spec_dx pt g)),
      - snd (mat_vec (spec_inverse (sigma g)) (spec_dx pt g)))"

definition spec_mixture :: "Point \<Rightarrow> GMMComponent list \<Rightarrow> real" where
  "spec_mixture pt G = (\<Sum>g\<leftarrow>G. spec_density pt g)"

definition spec_logDensity :: "Point \<Rightarrow> GMMComponent list \<Rightarrow> real" where
  "spec_logDensity pt G = ln (spec_mixture pt G + 1 / 10 ^ 20)"

definition spec_gradLogDensity :: "Point \<Rightarrow> GMMComponent list \<Rightarrow> Point" where
  "spec_gradLogDensity pt G =
     \<lparr>xc = (\<Sum>g\<leftarrow>G. spec_density pt g * fst (spec_local_grad pt g)) / (spec_mixture pt G + 1 / 10 ^ 20),
      yc = (\<Sum>g\<leftarrow>G. spec_density pt g * snd (spec_local_grad pt g)) / (spec_mixture pt G + 1 / 10 ^ 20)\<rparr>"

section \<open>Sampler records (types.ts)\<close>

text \<open>
  An optional field is an \<open>option\<close>. \<open>numSteps\<close> is set by the caller through
  \<open>parseInt\<close>, so it is an integer when present. The free-text \<open>description\<close> of a
  step is built with \<open>toFixed\<close> from the numbers beside it and is left out of
  \<open>StepDetails\<close>; the termination reason of the NUTS loop, which goes into it, is kept in
  the loop state.
\<close>

record SimulationParams =
  stepSize :: real
  numSteps :: "int option"
  friction :: "real option"

record StepDetails =
  logProbCurrent :: "real option"
  logProbProposal :: "real option"
  acceptanceProb :: "real option"
  currentH :: "real option"
  proposedH :: "real option"
  gradient :: "Point option"
  phase :: "string option"

record StepResult =
  current :: Point
  proposal :: "Point option"
  accepted :: "bool option"
  path :: "Point list option"
  details :: StepDetails
  isFinishedStep :: bool
  delay :: "int option"

text \<open>The empty details \<open>{}\<close>, and a record that gives only the required fields.\<close>

definition no_details :: StepDetails where
  "no_details =
     \<lparr>logProbCurrent = None, logProbProposal = None, acceptanceProb = None, currentH = None,
      proposedH = None, gradient = None, phase = None\<rparr>"

definition bare_result :: "Point \<Rightarrow> StepDetails \<Rightarrow> bool \<Rightarrow> StepResult" where
  "bare_result c d fin =
     \<lparr>current = c, proposal = None, accepted = None, path = None, details = d,
      isFinishedStep = fin, delay = None\<rparr>"

section \<open>Random numbers\<close>

text \<open>
  The results that \<open>Math.random()\<close> is going to give, in the order of the calls, are an
  input: a list of reals. A call takes the head. \<open>Math.random()\<close> gives a number in
  \<open>[0, 1)\<close>, so a list with a head outside this interval, and the empty list, are not a
  run of it: the call gives \<open>None\<close>, and so does every function that makes the call.
\<close>

type_synonym rng = "real list"

fun Math_random :: "rng \<Rightarrow> (real \<times> rng) option" where
  "Math_random [] = None"
| "Math_random (u # t) = (if 0 \<le> u \<and> u < 1 then Some (u, t) else None)"

text \<open>
  The loop \<open>while (u === 0) u = Math.random()\<close>, entered with \<open>u = 0\<close>: results are taken
  until one is not zero.
\<close>

fun nonzero_draw :: "rng \<Rightarrow> (real \<times> rng) option" where
  "nonzero_draw [] = None"
| "nonzero_draw (u # t) =
     (if 0 \<le> u \<and> u < 1 then (if u = 0 then nonzero_draw t else Some (u, t)) else None)"

definition randn :: "rng \<Rightarrow> (real \<times> rng) option" where
  "randn t0 = do {
     (u, t1) \<leftarrow> nonzero_draw t0;
     (v, t2) \<leftarrow> nonzero_draw t1;
     Some (sqrt (- 2.0 * ln u) * cos (2.0 * pi * v), t2)
   }"

section \<open>The samplers\<close>

text \<open>
  A generator is run to its end: the result is the list of the records it yields, the record
  it returns, and the random numbers it has left.
\<close>

type_synonym run = "((StepResult list \<times> StepResult) \<times> rng) option"

subsection \<open>Metropolis-Hastings\<close>

definition mhGenerator :: "Point \<Rightarrow> SimulationParams \<Rightarrow> GMMComponent list \<Rightarrow> rng \<Rightarrow> run" where
  "mhGenerator cur params gmm t0 = do {
     (z1, t1) \<leftarrow> randn t0;
     (z2, t2) \<leftarrow> randn t1;
     let prop = \<lparr>xc = xc cur + z1 * stepSize params, yc = yc cur + z2 * stepSize params\<rparr>;
     let logProbCur = getLogProb cur gmm;
     let y1 = (bare_result cur
                 (no_details\<lparr>logProbCurrent := Some logProbCur, phase := Some ''proposal''\<rparr>) False)
               \<lparr>proposal := Some prop, delay := Some 1500\<rparr>;
     let logProbProp = getLogProb prop gmm;
     let acceptProb = min 1 (exp (logProbProp - logProbCur));
     let y2 = (bare_result cur
                 (no_details\<lparr>logProbCurrent := Some logProbCur, logProbProposal := Some logProbProp,
                    acceptanceProb := Some acceptProb, phase := Some ''compute''\<rparr>) False)
               \<lparr>proposal := Some prop, delay := Some 1500\<rparr>;
     (dice, t3) \<leftarrow> Math_random t2;
     let acc = (dice < acceptProb);
     let y3 = (bare_result (if acc then prop else cur)
                 (no_details\<lparr>logProbCurrent := Some logProbCur, logProbProposal := Some logProbProp,
                    acceptanceProb := Some acceptProb,
                    phase := Some (if acc then ''accept'' else ''reject'')\<rparr>) True)
               \<lparr>proposal := Some prop, accepted := Some acc, delay := Some 2000\<rparr>;
     Some (([y1, y2, y3], bare_result (if acc then prop else cur) no_details True), t3)
   }"

subsection \<open>Metropolis within Gibbs\<close>

definition gibbsGenerator :: "Point \<Rightarrow> SimulationParams \<Rightarrow> GMMComponent list \<Rightarrow> rng \<Rightarrow> run" where
  "gibbsGenerator cur params gmm t0 = do {
     let y1 = (bare_result cur (no_details\<lparr>phase := Some ''compute''\<rparr>) False)
               \<lparr>delay := Some 1000\<rparr>;
     (z1, t1) \<leftarrow> randn t0;
     let propX = xc cur + z1 * stepSize params;
     let logProbCurrX = getLogProb cur gmm;
     let logProbPropX = getLogProb \<lparr>xc = propX, yc = yc cur\<rparr> gmm;
     let acceptProbX = min 1 (exp (logProbPropX - logProbCurrX));
     (u1, t2) \<leftarrow> Math_random t1;
     let nextX = (if u1 < acceptProbX then propX else xc cur);
     let intermediate = \<lparr>xc = nextX, yc = yc cur\<rparr>;
     let y2 = (bare_result intermediate
                 (no_details\<lparr>logProbCurrent := Some logProbCurrX,
                    acceptanceProb := Some acceptProbX, phase := Some ''move_x''\<rparr>) False)
               \<lparr>proposal := Some \<lparr>xc = propX, yc = yc cur\<rparr>, delay := Some 2000\<rparr>;
     (z2, t3) \<leftarrow> randn t2;
     let propY = yc cur + z2 * stepSize params;
     let logProbCurrY = getLogProb intermediate gmm;
     let logProbPropY = getLogProb \<lparr>xc = nextX, yc = propY\<rparr> gmm;
     let acceptProbY = min 1 (exp (logProbPropY - logProbCurrY));
     (u2, t4) \<leftarrow> Math_random t3;
     let nextY = (if u2 < acceptProbY then propY else yc cur);
     let final = \<lparr>xc = nextX, yc = nextY\<rparr>;
     let moved = (xc final \<noteq> xc cur \<or> yc final \<noteq> yc cur);
     let y3 = (bare_result final
                 (no_details\<lparr>logProbCurrent := Some logProbCurrY,
                    acceptanceProb := Some acceptProbY, phase := Some ''move_y''\<rparr>) True)
               \<lparr>proposal := Some \<lparr>xc = nextX, yc = propY\<rparr>, accepted := Some moved,
                 delay := Some 2000\<rparr>;
     Some (([y1, y2, y3], bare_result final no_details True), t4)
   }"

subsection \<open>Leapfrog steps shared by HMC and NUTS\<close>

text \<open>
  \<open>q.x += epsilon * p.x; q.y += epsilon * p.y\<close>, then
  \<open>p.x -= epsilon * grad.x; p.y -= epsilon * grad.y\<close>, the same with \<open>/ 2\<close>, and
  \<open>0.5 * (p.x * p.x + p.y * p.y)\<close>.
\<close>

definition position_step :: "real \<Rightarrow> Point \<Rightarrow> Point \<Rightarrow> Point" where
  "position_step epsilon q p = \<lparr>xc = xc q + epsilon * xc p, yc = yc q + epsilon * yc p\<rparr>"

definition momentum_step :: "real \<Rightarrow> Point \<Rightarrow> Point \<Rightarrow> Point" where
  "momentum_step epsilon grad p = \<lparr>xc = xc p - epsilon * xc grad, yc = yc p - epsilon * yc grad\<rparr>"

definition half_momentum_step :: "real \<Rightarrow> Point \<Rightarrow> Point \<Rightarrow> Point" where
  "half_momentum_step epsilon grad p =
     \<lparr>xc = xc p - epsilon * xc grad / 2, yc = yc p - epsilon * yc grad / 2\<rparr>"

definition kinetic :: "Point \<Rightarrow> real" where
  "kinetic p = 0.5 * (xc p * xc p + yc p * yc p)"

subsection \<open>Hamiltonian Monte Carlo\<close>

text \<open>
  \<open>params.numSteps || 10\<close>: an absent and a zero \<open>numSteps\<close> are falsy (and so is
  the \<open>NaN\<close> that \<open>parseInt\<close> can give, which is read as absent here).
\<close>

definition numSteps_or_10 :: "SimulationParams \<Rightarrow> int" where
  "numSteps_or_10 params =
     (case numSteps params of None \<Rightarrow> 10 | Some n \<Rightarrow> if n = 0 then 10 else n)"

text \<open>The variables that the leapfrog loop changes, and the records it has yielded.\<close>

record hmc_state =
  hq :: Point
  hp :: Point
  hgrad :: Point
  hpath :: "Point list"
  hout :: "StepResult list"

text \<open>One round of \<open>for (let i = 0; i < L; i++)\<close>.\<close>

definition hmc_body ::
  "Point \<Rightarrow> GMMComponent list \<Rightarrow> real \<Rightarrow> int \<Rightarrow> int \<Rightarrow> int \<Rightarrow> hmc_state \<Rightarrow> hmc_state" where
  "hmc_body cur gmm epsilon L stepDelay i st =
     (let q1 = position_step epsilon (hq st) (hp st);
          path1 = hpath st @ [q1];
          y = (bare_result cur
                 (no_details\<lparr>phase := Some ''leapfrog'', gradient := Some (hgrad st)\<rparr>) False)
               \<lparr>path := Some path1, delay := Some stepDelay\<rparr>;
          grad1 = getGradLogProb q1 gmm;
          p1 = (if i \<noteq> L - 1 then momentum_step epsilon grad1 (hp st) else hp st)
      in \<lparr>hq = q1, hp = p1, hgrad = grad1, hpath = path1, hout = hout st @ [y]\<rparr>)"

function hmc_loop ::
  "Point \<Rightarrow> GMMComponent list \<Rightarrow> real \<Rightarrow> int \<Rightarrow> int \<Rightarrow> int \<Rightarrow> hmc_state \<Rightarrow> hmc_state" where
  "hmc_loop cur gmm epsilon L stepDelay i st =
     (if i < L then hmc_loop cur gmm epsilon L stepDelay (i + 1)
                      (hmc_body cur gmm epsilon L stepDelay i st)
      else st)"
  by pat_completeness auto
termination
  by (relation "measure (\<lambda>(cur, gmm, epsilon, L, stepDelay, i, st). nat (L - i))") auto

declare hmc_loop.simps [simp del]

text \<open>
  From the momentum \<open>(z1, z2)\<close> to the entry of the loop: the start energy
  \<open>currentH\<close>, the first record, the first half step of the momentum, and the state in which
  the loop is entered.
\<close>

definition hmc_start ::
  "Point \<Rightarrow> GMMComponent list \<Rightarrow> real \<Rightarrow> real \<Rightarrow> real \<Rightarrow> real \<times> hmc_state" where
  "hmc_start cur gmm epsilon z1 z2 =
     (let p0 = \<lparr>xc = z1, yc = z2\<rparr>;
          curK = kinetic p0;
          curU = - getLogProb cur gmm;
          curH = curU + curK;
          y1 = (bare_result cur (no_details\<lparr>currentH := Some curH, phase := Some ''momentum''\<rparr>) False)
                \<lparr>delay := Some 1500\<rparr>;
          grad0 = getGradLogProb cur gmm;
          phalf = half_momentum_step epsilon grad0 p0
      in (curH, \<lparr>hq = cur, hp = phalf, hgrad = grad0, hpath = [cur], hout = [y1]\<rparr>))"

text \<open>The generator up to the end of the leapfrog loop.\<close>

definition hmc_leapfrog ::
  "Point \<Rightarrow> SimulationParams \<Rightarrow> GMMComponent list \<Rightarrow> rng \<Rightarrow> ((real \<times> hmc_state) \<times> rng) option" where
  "hmc_leapfrog cur params gmm t0 = do {
     let epsilon = stepSize params * 0.5;
     let L = numSteps_or_10 params;
     (z1, t1) \<leftarrow> randn t0;
     (z2, t2) \<leftarrow> randn t1;
     let (curH, st0) = hmc_start cur gmm epsilon z1 z2;
     let stepDelay = max 100 \<lfloor>2500 / real_of_int L\<rfloor>;
     Some ((curH, hmc_loop cur gmm epsilon L stepDelay 0 st0), t2)
   }"

definition hmcGenerator :: "Point \<Rightarrow> SimulationParams \<Rightarrow> GMMComponent list \<Rightarrow> rng \<Rightarrow> run" where
  "hmcGenerator cur params gmm t0 = do {
     let epsilon = stepSize params * 0.5;
     ((curH, st), t2) \<leftarrow> hmc_leapfrog cur params gmm t0;
     let pend = half_momentum_step epsilon (hgrad st) (hp st);
     let propU = - getLogProb (hq st) gmm;
     let propK = kinetic pend;
     let propH = propU + propK;
     let acceptProb = min 1 (exp (curH - propH));
     (dice, t3) \<leftarrow> Math_random t2;
     let acc = (dice < acceptProb);
     let yn = (bare_result (if acc then hq st else cur)
                 (no_details\<lparr>currentH := Some curH, proposedH := Some propH,
                    acceptanceProb := Some acceptProb,
                    phase := Some (if acc then ''accept'' else ''reject'')\<rparr>) True)
               \<lparr>path := Some (hpath st), accepted := Some acc, delay := Some 1500\<rparr>;
     Some ((hout st @ [yn], bare_result (if acc then hq st else cur) no_details True), t3)
   }"

subsection \<open>NUTS\<close>

definition maxSteps :: int where
  "maxSteps = 50"

text \<open>
  \<open>log_u = Math.log(Math.random()) - startH\<close>. \<open>Math.log(0)\<close> is minus infinity, written
  \<open>None\<close>; every number is at least that, so the slice test passes.
\<close>

definition slice_level :: "real \<Rightarrow> real \<Rightarrow> real option" where
  "slice_level u startH = (if u = 0 then None else Some (ln u - startH))"

definition in_slice :: "real \<Rightarrow> real option \<Rightarrow> bool" where
  "in_slice currH log_u = (case log_u of None \<Rightarrow> True | Some l \<Rightarrow> - currH \<ge> l)"

record nuts_state =
  nq :: Point
  np :: Point
  ngrad :: Point
  stopped :: bool
  steps :: int
  reason :: string
  npath :: "Point list"
  validCandidates :: "Point list"
  nout :: "StepResult list"

text \<open>
  The energy \<open>currH\<close> at the new position \<open>q1\<close> with the momentum \<open>p\<close> before its
  half step, and the U-turn diagnostic \<open>dot\<close>.
\<close>

definition nuts_currH :: "GMMComponent list \<Rightarrow> real \<Rightarrow> Point \<Rightarrow> Point \<Rightarrow> real" where
  "nuts_currH gmm epsilon q1 p =
     (let grad1 = getGradLogProb q1 gmm;
          currU = - getLogProb q1 gmm;
          p_full_x = xc p - epsilon * xc grad1 / 2;
          p_full_y = yc p - epsilon * yc grad1 / 2;
          currK = 0.5 * (p_full_x * p_full_x + p_full_y * p_full_y)
      in currU + currK)"

definition nuts_dot :: "Point \<Rightarrow> Point \<Rightarrow> Point \<Rightarrow> real" where
  "nuts_dot cur q1 p =
     (let dx = xc q1 - xc cur;
          dy = yc q1 - yc cur
      in dx * xc p + dy * yc p)"

text \<open>One round of \<open>while (!stopped && steps < maxSteps)\<close>.\<close>

definition nuts_body ::
  "Point \<Rightarrow> GMMComponent list \<Rightarrow> real \<Rightarrow> real \<Rightarrow> real option \<Rightarrow> nuts_state \<Rightarrow> nuts_state" where
  "nuts_body cur gmm epsilon startH log_u st =
     (let q1 = position_step epsilon (nq st) (np st);
          grad1 = getGradLogProb q1 gmm;
          currH = nuts_currH gmm epsilon q1 (np st);
          diverged = (currH - startH > 1000);
          stopped1 = (if diverged then True else stopped st);
          reason1 = (if diverged then ''Divergence'' else reason st);
          dot = nuts_dot cur q1 (np st);
          path1 = npath st @ [q1];
          valid1 = (if in_slice currH log_u then validCandidates st @ [q1] else validCandidates st);
          y = (bare_result cur (no_details\<lparr>phase := Some ''tree_build''\<rparr>) False)
               \<lparr>path := Some path1, delay := Some 150\<rparr>
      in if dot < 0
         then \<lparr>nq = q1, np = np st, ngrad = grad1, stopped = True, steps = steps st,
               reason = ''U-Turn Detected'', npath = path1, validCandidates = valid1,
               nout = nout st @ [y]\<rparr>
         else \<lparr>nq = q1, np = momentum_step epsilon grad1 (np st), ngrad = grad1,
               stopped = stopped1, steps = steps st + 1,
               reason = reason1, npath = path1, validCandidates = valid1,
               nout = nout st @ [y]\<rparr>)"

function nuts_loop ::
  "Point \<Rightarrow> GMMComponent list \<Rightarrow> real \<Rightarrow> real \<Rightarrow> real option \<Rightarrow> nuts_state \<Rightarrow> nuts_state" where
  "nuts_loop cur gmm epsilon startH log_u st =
     (if \<not> stopped st \<and> steps st < maxSteps
      then nuts_loop cur gmm epsilon startH log_u (nuts_body cur gmm epsilon startH log_u st)
      else st)"
  by pat_completeness auto
termination
  by (relation "measure (\<lambda>(cur, gmm, epsilon, startH, log_u, st).
        if stopped st then 0 else nat (maxSteps - steps st) + 1)")
    (auto simp: nuts_body_def Let_def)

declare nuts_loop.simps [simp del]

text \<open>\<open>xs[i]\<close> of JavaScript: \<open>undefined\<close>, here \<open>None\<close>, outside the array.\<close>

definition js_index :: "'a list \<Rightarrow> int \<Rightarrow> 'a option" where
  "js_index xs i = (if 0 \<le> i \<and> i < int (length xs) then Some (xs ! nat i) else None)"

text \<open>
  From the momentum \<open>(z1, z2)\<close> and the uniform number \<open>u\<close> to the entry of the loop:
  \<open>startH\<close>, \<open>log_u\<close>, the first record, the first half step of the momentum, and the
  state in which the loop is entered.
\<close>

definition nuts_start ::
  "Point \<Rightarrow> GMMComponent list \<Rightarrow> real \<Rightarrow> real \<Rightarrow> real \<Rightarrow> real
     \<Rightarrow> real \<times> real option \<times> nuts_state" where
  "nuts_start cur gmm epsilon z1 z2 u =
     (let p0 = \<lparr>xc = z1, yc = z2\<rparr>;
          startU = - getLogProb cur gmm;
          startK = kinetic p0;
          startH = startU + startK;
          log_u = slice_level u startH;
          y1 = (bare_result cur (no_details\<lparr>currentH := Some startH, phase := Some ''momentum''\<rparr>) False)
                \<lparr>delay := Some 1500\<rparr>;
          grad0 = getGradLogProb cur gmm;
          phalf = half_momentum_step epsilon grad0 p0
      in (startH, log_u,
          \<lparr>nq = cur, np = phalf, ngrad = grad0, stopped = False, steps = 0, reason = [],
           npath = [cur], validCandidates = [cur], nout = [y1]\<rparr>))"

text \<open>The generator up to the end of the tree-building loop.\<close>

definition nuts_tree ::
  "Point \<Rightarrow> SimulationParams \<Rightarrow> GMMComponent list \<Rightarrow> rng
     \<Rightarrow> ((real \<times> real option \<times> nuts_state) \<times> rng) option" where
  "nuts_tree cur params gmm t0 = do {
     let epsilon = stepSize params * 0.4;
     (z1, t1) \<leftarrow> randn t0;
     (z2, t2) \<leftarrow> randn t1;
     (u, t3) \<leftarrow> Math_random t2;
     let (startH, log_u, st0) = nuts_start cur gmm epsilon z1 z2 u;
     Some ((startH, log_u, nuts_loop cur gmm epsilon startH log_u st0), t3)
   }"

text \<open>
  The final selection: \<open>(nextQ, accepted)\<close> and the random numbers left.
  \<open>Math.random()\<close> is called only when there is a candidate. A selection outside the
  candidates would put \<open>undefined\<close> into the record; it gives \<open>None\<close>.
\<close>

definition nuts_select :: "Point \<Rightarrow> Point list \<Rightarrow> rng \<Rightarrow> ((Point \<times> bool) \<times> rng) option" where
  "nuts_select cur cands t0 =
     (if length cands > 0 then do {
        (u, t1) \<leftarrow> Math_random t0;
        let idx = \<lfloor>u * real (length cands)\<rfloor>;
        nextQ \<leftarrow> js_index cands idx;
        Some ((nextQ, True), t1)
      } else Some ((cur, False), t0))"

definition nutsGenerator :: "Point \<Rightarrow> SimulationParams \<Rightarrow> GMMComponent list \<Rightarrow> rng \<Rightarrow> run" where
  "nutsGenerator cur params gmm t0 = do {
     ((startH, log_u, st), t3) \<leftarrow> nuts_tree cur params gmm t0;
     ((nextQ, acc), t4) \<leftarrow> nuts_select cur (validCandidates st) t3;
     let yn = (bare_result nextQ (no_details\<lparr>currentH := Some startH, phase := Some ''accept''\<rparr>) True)
               \<lparr>path := Some (npath st), accepted := Some acc, delay := Some 2000\<rparr>;
     Some ((nout st @ [yn], bare_result nextQ no_details True), t4)
   }"

subsection \<open>The caller's initial values (App.tsx)\<close>

definition INITIAL_POINT :: Point where
  "INITIAL_POINT = \<lparr>xc = 0, yc = 0\<rparr>"

definition INITIAL_PARAMS :: SimulationParams where
  "INITIAL_PARAMS = \<lparr>stepSize = 0.5, numSteps = Some 10, friction = None\<rparr>"

subsection \<open>Further inputs, for the runs that are carried out below\<close>

text \<open>One component at the origin with the identity covariance and weight one.\<close>

definition unit_gmm :: "GMMComponent list" where
  "unit_gmm = [\<lparr>mu = (0, 0), sigma = ((1, 0), (0, 1)), weight = 1, ident = 1\<rparr>]"

text \<open>The density of \<open>unit_gmm\<close> at \<open>(a, b)\<close>.\<close>

definition unit_density :: "real \<Rightarrow> real \<Rightarrow> real" where
  "unit_density a b = exp (- ((a * a + b * b) / 2)) / (2 * pi)"

definition unit_params :: SimulationParams where
  "unit_params = \<lparr>stepSize = 1, numSteps = Some 10, friction = None\<rparr>"

definition long_params :: SimulationParams where
  "long_params = \<lparr>stepSize = 1000, numSteps = Some 10, friction = None\<rparr>"

definition east_point :: Point where
  "east_point = \<lparr>xc = 1, yc = 0\<rparr>"

text \<open>
  The quantities of the NUTS run from \<open>east_point\<close> on \<open>unit_gmm\<close> with
  \<open>long_params\<close> (so \<open>epsilon = 400\<close>) and a zero momentum draw: the start energy, the
  momentum after the first half step, and the first position of the loop.
\<close>

definition east_ratio :: real where
  "east_ratio = unit_density 1 0 / (unit_density 1 0 + 1 / 10 ^ 20)"

definition east_startH :: real where
  "east_startH = - ln (unit_density 1 0 + 1 / 10 ^ 20)"

definition east_momentum :: Point where
  "east_momentum = \<lparr>xc = 200 * east_ratio, yc = 0\<rparr>"

definition east_first :: Point where
  "east_first = \<lparr>xc = 1 + 80000 * east_ratio, yc = 0\<rparr>"

text \<open>The state of the loop at the end of the part of a run before the selection.\<close>

definition tree_state :: "((real \<times> real option \<times> nuts_state) \<times> rng) option \<Rightarrow> nuts_state option" where
  "tree_state r = (case r of None \<Rightarrow> None | Some ((H0, lu, st), t) \<Rightarrow> Some st)"

section \<open>Notions used to state the properties\<close>

text \<open>
  A list of random numbers is a run of \<open>Math.random()\<close> with at least \<open>n\<close> results that
  are not zero: then \<open>n\<close> calls can be served, whichever of them skip zeros.
\<close>

definition random_run :: "nat \<Rightarrow> rng \<Rightarrow> bool" where
  "random_run n t \<longleftrightarrow> (\<forall>u\<in>set t. 0 \<le> u \<and> u < 1) \<and> n \<le> length (filter (\<lambda>u. u \<noteq> 0) t)"

text \<open>The records a run yields, and the last of them.\<close>

definition emissions :: "run \<Rightarrow> StepResult list" where
  "emissions r = (case r of None \<Rightarrow> [] | Some ((ys, ret), t) \<Rightarrow> ys)"

definition terminal :: "run \<Rightarrow> StepResult option" where
  "terminal r = (case r of None \<Rightarrow> None | Some ((ys, ret), t) \<Rightarrow> Some (last ys))"

text \<open>
  The invariant of the tree-building loop. One record is yielded before the loop and one in
  each round; a round either counts a step or stops on a U-turn, so the records yielded in
  the loop are as many as the steps, or one more when the last round stopped on a U-turn.
\<close>

definition nuts_inv :: "Point \<Rightarrow> nuts_state \<Rightarrow> bool" where
  "nuts_inv cur s \<longleftrightarrow>
     0 \<le> steps s \<and> steps s \<le> maxSteps
     \<and> (if stopped s
         then (int (length (nout s)) = steps s + 1
               \<or> (int (length (nout s)) = steps s + 2 \<and> steps s < maxSteps))
              \<and> (reason s = ''Divergence'' \<or> reason s = ''U-Turn Detected'')
         else int (length (nout s)) = steps s + 1 \<and> reason s = [])
     \<and> length (npath s) = length (nout s)
     \<and> validCandidates s \<noteq> [] \<and> hd (validCandidates s) = cur
     \<and> set (validCandidates s) \<subseteq> set (npath s)
     \<and> nout s \<noteq> [] \<and> phase (details (hd (nout s))) = Some ''momentum''
     \<and> list_all (\<lambda>y. phase (details y) = Some ''tree_build'' \<and> \<not> isFinishedStep y) (tl (nout s))"

text \<open>
  The rounds of the tree-building loop. \<open>nuts_round \<dots> st0 k\<close> is the state after \<open>k\<close>
  rounds from \<open>st0\<close>. For a round that starts in the state \<open>s\<close>: the position it moves
  to, the energy \<open>currH\<close> it computes there, and its U-turn diagnostic \<open>dot\<close>.
\<close>

definition nuts_round ::
  "Point \<Rightarrow> GMMComponent list \<Rightarrow> real \<Rightarrow> real \<Rightarrow> real option \<Rightarrow> nuts_state \<Rightarrow> nat \<Rightarrow> nuts_state" where
  "nuts_round cur gmm e H0 lu st0 k = (nuts_body cur gmm e H0 lu ^^ k) st0"

definition round_position :: "real \<Rightarrow> nuts_state \<Rightarrow> Point" where
  "round_position e s = position_step e (nq s) (np s)"

definition round_H :: "GMMComponent list \<Rightarrow> real \<Rightarrow> nuts_state \<Rightarrow> real" where
  "round_H gmm e s = nuts_currH gmm e (position_step e (nq s) (np s)) (np s)"

definition round_dot :: "Point \<Rightarrow> real \<Rightarrow> nuts_state \<Rightarrow> real" where
  "round_dot cur e s = nuts_dot cur (position_step e (nq s) (np s)) (np s)"

subsection \<open>The leapfrog scheme as the specification words it\<close>

text \<open>
  A half momentum step, then \<open>L\<close> full position steps, each followed by a full momentum
  step except the last, then a half momentum step. A momentum step of size \<open>h\<close> at \<open>q\<close>
  adds \<open>h\<close> times the force at \<open>q\<close> to the momentum; a position step of size \<open>h\<close> adds
  \<open>h\<close> times the momentum to the position. \<open>spec_full_steps\<close> lists the position and
  the momentum after each of the \<open>n\<close> steps that remain.
\<close>

definition spec_momentum :: "real \<Rightarrow> (Point \<Rightarrow> Point) \<Rightarrow> Point \<Rightarrow> Point \<Rightarrow> Point" where
  "spec_momentum h force q p = \<lparr>xc = xc p + h * xc (force q), yc = yc p + h * yc (force q)\<rparr>"

definition spec_position :: "real \<Rightarrow> Point \<Rightarrow> Point \<Rightarrow> Point" where
  "spec_position h q p = \<lparr>xc = xc q + h * xc p, yc = yc q + h * yc p\<rparr>"

fun spec_full_steps :: "(Point \<Rightarrow> Point) \<Rightarrow> real \<Rightarrow> nat \<Rightarrow> Point \<Rightarrow> Point \<Rightarrow> (Point \<times> Point) list" where
  "spec_full_steps force h 0 q p = []"
| "spec_full_steps force h (Suc n) q p =
     (let q1 = spec_position h q p;
          p1 = (if n = 0 then p else spec_momentum h force q1 p)
      in (q1, p1) # spec_full_steps force h n q1 p1)"

definition spec_leapfrog ::
  "(Point \<Rightarrow> Point) \<Rightarrow> real \<Rightarrow> nat \<Rightarrow> Point \<Rightarrow> Point \<Rightarrow> Point list \<times> Point \<times> Point" where
  "spec_leapfrog force h L q0 p0 =
     (let p_half = spec_momentum (h / 2) force q0 p0;
          tr = spec_full_steps force h L q0 p_half;
          qL = fst (last ((q0, p_half) # tr));
          pL = snd (last ((q0, p_half) # tr))
      in (q0 # map fst tr, qL, spec_momentum (h / 2) force qL pL))"

text \<open>
  The force that the code integrates: its momentum steps are \<open>p -= epsilon * grad\<close> with
  \<open>grad = getGradLogProb(q, gmm)\<close>, so the force is minus the gradient of the log-density.
\<close>

definition hmc_force :: "GMMComponent list \<Rightarrow> Point \<Rightarrow> Point" where
  "hmc_force gmm q = \<lparr>xc = - xc (getGradLogProb q gmm), yc = - yc (getGradLogProb q gmm)\<rparr>"

section \<open>Properties of the target density\<close>

lemma logProb_body_spec: "logProb_body pt s g = s + spec_density pt g"
  by (simp add: logProb_body_def getGaussianProps_def spec_density_def spec_mahalanobis_def
      spec_inverse_def spec_det_def spec_dx_def mat_vec_def mat_scale_def dot2_def
      m00_def m01_def m10_def m11_def Let_def)

lemma foldl_logProb_body: "foldl (logProb_body pt) s G = s + spec_mixture pt G"
  by (induction G arbitrary: s) (simp_all add: spec_mixture_def logProb_body_spec)

lemma gradLogProb_body_spec:
  "gradLogProb_body pt (s, a, b) g =
     (s + spec_density pt g,
      a + spec_density pt g * fst (spec_local_grad pt g),
      b + spec_density pt g * snd (spec_local_grad pt g))"
  by (simp add: gradLogProb_body_def getGaussianProps_def spec_density_def spec_mahalanobis_def
      spec_local_grad_def spec_inverse_def spec_det_def spec_dx_def mat_vec_def mat_scale_def
      dot2_def m00_def m01_def m10_def m11_def Let_def)

lemma foldl_gradLogProb_body:
  "foldl (gradLogProb_body pt) (s, a, b) G =
     (s + spec_mixture pt G,
      a + (\<Sum>g\<leftarrow>G. spec_density pt g * fst (spec_local_grad pt g)),
      b + (\<Sum>g\<leftarrow>G. spec_density pt g * snd (spec_local_grad pt g)))"
  by (induction G arbitrary: s a b) (simp_all add: spec_mixture_def gradLogProb_body_spec)

lemma quot_one_a:
  fixes d :: real
  assumes "d \<noteq> 0" and "a * e - b * c = d"
  shows "a * (e / d) + b * (- c / d) = 1"
proof -
  have "a * (e / d) + b * (- c / d) = (a * e - b * c) / d"
    by (simp add: diff_divide_distrib)
  then show ?thesis using assms by simp
qed

lemma quot_one_b:
  fixes d :: real
  assumes "d \<noteq> 0" and "a * e - b * c = d"
  shows "c * (- b / d) + e * (a / d) = 1"
proof -
  have "c * (- b / d) + e * (a / d) = (a * e - b * c) / d"
    by (simp add: diff_divide_distrib mult.commute)
  then show ?thesis using assms by simp
qed

lemma spec_inverse_right:
  assumes "spec_det s \<noteq> 0"
  shows "mat_mul s (spec_inverse s) = mat_one"
proof -
  obtain a b c e where s: "s = ((a, b), (c, e))"
    by (metis surj_pair)
  define d where "d = a * e - b * c"
  have d: "d \<noteq> 0" and de: "a * e - b * c = d"
    using assms by (simp_all add: d_def s spec_det_def m00_def m01_def m10_def m11_def)
  have "a * (e / d) + b * (- c / d) = 1" "c * (- b / d) + e * (a / d) = 1"
    using quot_one_a [OF d de] quot_one_b [OF d de] by simp_all
  moreover have "a * (- b / d) + b * (a / d) = 0" "c * (e / d) + e * (- c / d) = 0"
    by (simp_all add: mult.commute)
  ultimately show ?thesis
    by (simp add: s mat_mul_def spec_inverse_def spec_det_def mat_scale_def mat_one_def
        m00_def m01_def m10_def m11_def d_def [symmetric])
qed

lemma spec_inverse_left:
  assumes "spec_det s \<noteq> 0"
  shows "mat_mul (spec_inverse s) s = mat_one"
proof -
  obtain a b c e where s: "s = ((a, b), (c, e))"
    by (metis surj_pair)
  define d where "d = a * e - b * c"
  have d: "d \<noteq> 0" and de: "a * e - b * c = d"
    using assms by (simp_all add: d_def s spec_det_def m00_def m01_def m10_def m11_def)
  have "e / d * a + - b / d * c = 1" "- c / d * b + a / d * e = 1"
    using quot_one_a [OF d de] quot_one_b [OF d de] by (simp_all add: mult.commute)
  moreover have "e / d * b + - b / d * e = 0" "- c / d * a + a / d * c = 0"
    by (simp_all add: mult.commute)
  ultimately show ?thesis
    by (simp add: s mat_mul_def spec_inverse_def spec_det_def mat_scale_def mat_one_def
        m00_def m01_def m10_def m11_def d_def [symmetric])
qed

lemma getGaussianProps_spec:
  "getGaussianProps g = (spec_det (sigma g), spec_inverse (sigma g))"
  by (simp add: getGaussianProps_def spec_det_def spec_inverse_def mat_scale_def Let_def
      m00_def m01_def m10_def m11_def)

lemma spec_density_nonneg: "0 \<le> weight g \<Longrightarrow> 0 \<le> spec_density pt g"
  by (simp add: spec_density_def)

lemma spec_mixture_nonneg:
  assumes "\<forall>g\<in>set G. 0 \<le> weight g"
  shows "0 \<le> spec_mixture pt G"
  unfolding spec_mixture_def
  by (rule sum_list_nonneg) (use assms in \<open>auto simp: spec_density_nonneg\<close>)

lemma getLogProb_spec: "getLogProb pt G = spec_logDensity pt G"
  by (simp add: getLogProb_def spec_logDensity_def foldl_logProb_body)

lemma getGradLogProb_spec: "getGradLogProb pt G = spec_gradLogDensity pt G"
  by (simp add: getGradLogProb_def spec_gradLogDensity_def foldl_gradLogProb_body Let_def)

text \<open>
  C1. For components with a nonzero determinant, \<open>getLogProb\<close> is \<open>ln (S + 1e-20)\<close>, where
  \<open>S\<close> sums, over the components, the weight times \<open>1 / (2 \<pi> sqrt |det|)\<close> times
  \<open>exp (-0.5 m)\<close>, \<open>m\<close> being the quadratic form of \<open>dx\<close> in the closed-form inverse (the
  adjugate scaled by \<open>1/det\<close>); the matrix that \<open>getGaussianProps\<close> returns is that one, and
  it is the inverse of \<open>sigma\<close> on both sides. The normalisation takes \<open>|det|\<close>.
\<close>

theorem getLogProb_closed_form:
  assumes "\<forall>g\<in>set G. spec_det (sigma g) \<noteq> 0"
  shows "getLogProb pt G =
           ln ((\<Sum>g\<leftarrow>G. weight g * (1 / (2 * pi * sqrt \<bar>spec_det (sigma g)\<bar>)) *
                  exp (- 0.5 * dot2 (spec_dx pt g) (mat_vec (spec_inverse (sigma g)) (spec_dx pt g))))
               + 1 / 10 ^ 20)
         \<and> (\<forall>g\<in>set G. getGaussianProps g = (spec_det (sigma g), spec_inverse (sigma g))
               \<and> mat_mul (sigma g) (spec_inverse (sigma g)) = mat_one
               \<and> mat_mul (spec_inverse (sigma g)) (sigma g) = mat_one)"
proof
  show "getLogProb pt G =
           ln ((\<Sum>g\<leftarrow>G. weight g * (1 / (2 * pi * sqrt \<bar>spec_det (sigma g)\<bar>)) *
                  exp (- 0.5 * dot2 (spec_dx pt g) (mat_vec (spec_inverse (sigma g)) (spec_dx pt g))))
               + 1 / 10 ^ 20)"
    by (simp add: getLogProb_spec spec_logDensity_def spec_mixture_def spec_density_def
        spec_mahalanobis_def)
next
  show "\<forall>g\<in>set G. getGaussianProps g = (spec_det (sigma g), spec_inverse (sigma g))
               \<and> mat_mul (sigma g) (spec_inverse (sigma g)) = mat_one
               \<and> mat_mul (spec_inverse (sigma g)) (sigma g) = mat_one"
    using assms by (simp add: getGaussianProps_spec spec_inverse_right spec_inverse_left)
qed

theorem getLogProb_closed_form_witness:
  "spec_det (sigma (DEFAULT_GMM ! 0)) \<noteq> 0 \<and> spec_det (sigma (DEFAULT_GMM ! 1)) \<noteq> 0
   \<and> getLogProb \<lparr>xc = 0, yc = 0\<rparr> DEFAULT_GMM =
       ln ((\<Sum>g\<leftarrow>DEFAULT_GMM. weight g * (1 / (2 * pi * sqrt \<bar>spec_det (sigma g)\<bar>)) *
              exp (- 0.5 * dot2 (spec_dx \<lparr>xc = 0, yc = 0\<rparr> g)
                     (mat_vec (spec_inverse (sigma g)) (spec_dx \<lparr>xc = 0, yc = 0\<rparr> g))))
           + 1 / 10 ^ 20)
   \<and> mat_mul (sigma (DEFAULT_GMM ! 0)) (snd (getGaussianProps (DEFAULT_GMM ! 0))) = mat_one"
proof -
  have h: "\<forall>g\<in>set DEFAULT_GMM. spec_det (sigma g) \<noteq> 0"
    by (simp add: DEFAULT_GMM_def spec_det_def m00_def m01_def m10_def m11_def)
  have m: "DEFAULT_GMM ! 0 \<in> set DEFAULT_GMM"
    by (simp add: DEFAULT_GMM_def)
  from getLogProb_closed_form [OF h, of "\<lparr>xc = 0, yc = 0\<rparr>"] h m show ?thesis
    by (simp add: DEFAULT_GMM_def)
qed

text \<open>
  C2. For components with a nonzero determinant and a weight that is not negative,
  \<open>getGradLogProb\<close> is the sum of \<open>density\<^sub>i * (- \<Sigma>\<^sub>i\<^sup>-\<^sup>1 dx\<^sub>i)\<close> divided by the sum of the
  \<open>density\<^sub>i\<close> plus \<open>1e-20\<close>; the sum of densities that the code of the gradient accumulates is
  the one that the code of \<open>getLogProb\<close> accumulates, and \<open>exp (getLogProb pt G)\<close> is the
  divisor of the gradient.
\<close>

theorem getGradLogProb_consistent:
  assumes "\<forall>g\<in>set G. spec_det (sigma g) \<noteq> 0 \<and> 0 \<le> weight g"
  shows "getGradLogProb pt G =
           \<lparr>xc = (\<Sum>g\<leftarrow>G. spec_density pt g * fst (spec_local_grad pt g))
                   / ((\<Sum>g\<leftarrow>G. spec_density pt g) + 1 / 10 ^ 20),
            yc = (\<Sum>g\<leftarrow>G. spec_density pt g * snd (spec_local_grad pt g))
                   / ((\<Sum>g\<leftarrow>G. spec_density pt g) + 1 / 10 ^ 20)\<rparr>
         \<and> fst (foldl (gradLogProb_body pt) (0, 0, 0) G) = foldl (logProb_body pt) 0 G
         \<and> foldl (logProb_body pt) 0 G = (\<Sum>g\<leftarrow>G. spec_density pt g)
         \<and> exp (getLogProb pt G) = (\<Sum>g\<leftarrow>G. spec_density pt g) + 1 / 10 ^ 20"
proof -
  have "0 \<le> spec_mixture pt G"
    using assms by (simp add: spec_mixture_nonneg)
  then have pos: "0 < spec_mixture pt G + 1 / 10 ^ 20"
    by (simp add: add_nonneg_pos)
  have "exp (getLogProb pt G) = spec_mixture pt G + 1 / 10 ^ 20"
    unfolding getLogProb_spec spec_logDensity_def using pos by (rule exp_ln)
  then show ?thesis
    by (simp add: getGradLogProb_spec spec_gradLogDensity_def foldl_gradLogProb_body
        foldl_logProb_body spec_mixture_def)
qed

theorem getGradLogProb_consistent_witness:
  "spec_det (sigma (DEFAULT_GMM ! 0)) \<noteq> 0 \<and> 0 \<le> weight (DEFAULT_GMM ! 0)
   \<and> spec_det (sigma (DEFAULT_GMM ! 1)) \<noteq> 0 \<and> 0 \<le> weight (DEFAULT_GMM ! 1)
   \<and> xc (getGradLogProb \<lparr>xc = 0, yc = 0\<rparr> DEFAULT_GMM) =
       (\<Sum>g\<leftarrow>DEFAULT_GMM. spec_density \<lparr>xc = 0, yc = 0\<rparr> g * fst (spec_local_grad \<lparr>xc = 0, yc = 0\<rparr> g))
         / ((\<Sum>g\<leftarrow>DEFAULT_GMM. spec_density \<lparr>xc = 0, yc = 0\<rparr> g) + 1 / 10 ^ 20)
   \<and> exp (getLogProb \<lparr>xc = 0, yc = 0\<rparr> DEFAULT_GMM) =
       (\<Sum>g\<leftarrow>DEFAULT_GMM. spec_density \<lparr>xc = 0, yc = 0\<rparr> g) + 1 / 10 ^ 20"
proof -
  have h: "\<forall>g\<in>set DEFAULT_GMM. spec_det (sigma g) \<noteq> 0 \<and> 0 \<le> weight g"
    by (simp add: DEFAULT_GMM_def spec_det_def m00_def m01_def m10_def m11_def)
  from getGradLogProb_consistent [OF h, of "\<lparr>xc = 0, yc = 0\<rparr>"] h show ?thesis
    by (simp add: DEFAULT_GMM_def)
qed

text \<open>
  C10. With no component, \<open>getLogProb\<close> is \<open>ln 1e-20\<close> and \<open>getGradLogProb\<close> is the point
  \<open>(0, 0)\<close>, at every point.
\<close>

theorem empty_component_list:
  "getLogProb pt [] = ln (1 / 10 ^ 20) \<and> getGradLogProb pt [] = \<lparr>xc = 0, yc = 0\<rparr>"
  by (simp add: getLogProb_def getGradLogProb_def)

section \<open>Random numbers: enough of them make every call return\<close>

lemma random_run_mono: "random_run n t \<Longrightarrow> m \<le> n \<Longrightarrow> random_run m t"
  by (simp add: random_run_def)

lemma Math_random_run:
  assumes "random_run (Suc n) t"
  shows "\<exists>u t'. Math_random t = Some (u, t') \<and> 0 \<le> u \<and> u < 1 \<and> random_run n t'"
proof (cases t)
  case Nil
  with assms show ?thesis by (simp add: random_run_def)
next
  case (Cons u t')
  with assms show ?thesis
    by (auto simp: random_run_def split: if_splits)
qed

lemma nonzero_draw_run:
  "random_run (Suc n) t \<Longrightarrow> \<exists>u t'. nonzero_draw t = Some (u, t') \<and> 0 < u \<and> u < 1 \<and> random_run n t'"
proof (induction t)
  case Nil
  then show ?case by (simp add: random_run_def)
next
  case (Cons u t)
  show ?case
  proof (cases "u = 0")
    case True
    with Cons.prems have "random_run (Suc n) t"
      by (simp add: random_run_def)
    from Cons.IH [OF this] True Cons.prems show ?thesis
      by (auto simp: random_run_def)
  next
    case False
    with Cons.prems show ?thesis
      by (auto simp: random_run_def)
  qed
qed

lemma randn_run:
  assumes "random_run (Suc (Suc n)) t"
  shows "\<exists>z t'. randn t = Some (z, t') \<and> random_run n t'"
proof -
  from nonzero_draw_run [OF assms] obtain u t1 where
    1: "nonzero_draw t = Some (u, t1)" "random_run (Suc n) t1" by blast
  from nonzero_draw_run [OF 1(2)] obtain v t2 where
    2: "nonzero_draw t1 = Some (v, t2)" "random_run n t2" by blast
  show ?thesis using 1 2 by (simp add: randn_def)
qed

lemma Math_random_range: "Math_random t = Some (u, t') \<Longrightarrow> 0 \<le> u \<and> u < 1"
  by (cases t) (auto split: if_splits)

lemma js_index_floor:
  assumes "0 \<le> u" "u < 1" "xs \<noteq> []"
  shows "js_index xs \<lfloor>u * real (length xs)\<rfloor> = Some (xs ! nat \<lfloor>u * real (length xs)\<rfloor>)
         \<and> nat \<lfloor>u * real (length xs)\<rfloor> < length xs"
proof -
  have pos: "0 < real (length xs)" using assms(3) by simp
  have "u * real (length xs) < real (length xs)"
    using assms(2) pos by simp
  then have "\<lfloor>u * real (length xs)\<rfloor> < int (length xs)"
    by (simp add: floor_less_iff)
  moreover have "0 \<le> \<lfloor>u * real (length xs)\<rfloor>"
    using assms(1) by simp
  ultimately show ?thesis by (simp add: js_index_def nat_less_iff)
qed


section \<open>Metropolis-Hastings and Gibbs\<close>

text \<open>
  C3. One cycle of Metropolis-Hastings yields exactly three records, with the phases
  \<open>proposal\<close>, \<open>compute\<close> and then \<open>accept\<close> or \<open>reject\<close>; only the third is marked
  finished. The proposal is the current point plus \<open>stepSize\<close> times a result of \<open>randn\<close>,
  one result for each coordinate; the acceptance probability is
  \<open>min 1 (exp (logP proposal - logP current))\<close>; the move is accepted exactly when the uniform
  number is below it; the terminal point is the proposal when accepted and the starting point
  otherwise.
\<close>

theorem mh_cycle:
  assumes "random_run 5 t0"
  shows "\<exists>z1 z2 dice t1 t2 t3 y1 y2 y3 ret.
           randn t0 = Some (z1, t1) \<and> randn t1 = Some (z2, t2) \<and> Math_random t2 = Some (dice, t3)
           \<and> mhGenerator cur ps gmm t0 = Some (([y1, y2, y3], ret), t3)
           \<and> (let prop = \<lparr>xc = xc cur + z1 * stepSize ps, yc = yc cur + z2 * stepSize ps\<rparr>;
                   alpha = min 1 (exp (getLogProb prop gmm - getLogProb cur gmm))
               in phase (details y1) = Some ''proposal''
                  \<and> phase (details y2) = Some ''compute''
                  \<and> phase (details y3) = Some (if dice < alpha then ''accept'' else ''reject'')
                  \<and> isFinishedStep y1 = False \<and> isFinishedStep y2 = False
                  \<and> isFinishedStep y3 = True
                  \<and> current y1 = cur \<and> current y2 = cur
                  \<and> proposal y1 = Some prop \<and> proposal y2 = Some prop \<and> proposal y3 = Some prop
                  \<and> acceptanceProb (details y2) = Some alpha
                  \<and> acceptanceProb (details y3) = Some alpha
                  \<and> accepted y3 = Some (dice < alpha)
                  \<and> current y3 = (if dice < alpha then prop else cur)
                  \<and> current ret = current y3)"
proof -
  from assms have "random_run (Suc (Suc 3)) t0"
    by (simp add: numeral_eq_Suc)
  from randn_run [OF this] obtain z1 t1 where
    1: "randn t0 = Some (z1, t1)" "random_run 3 t1" by blast
  from 1(2) have "random_run (Suc (Suc 1)) t1"
    by (simp add: numeral_eq_Suc)
  from randn_run [OF this] obtain z2 t2 where
    2: "randn t1 = Some (z2, t2)" "random_run 1 t2" by blast
  from 2(2) have "random_run (Suc 0) t2" by simp
  from Math_random_run [OF this] obtain dice t3 where
    3: "Math_random t2 = Some (dice, t3)" by blast
  show ?thesis
    using 1(1) 2(1) 3
    by (simp add: mhGenerator_def Let_def bare_result_def no_details_def)
qed


lemma randn_quarter: "randn (1/2 # 1/4 # t) = Some (0, t)"
  by (simp add: randn_def)

theorem mh_cycle_witness:
  "random_run 5 [1/2, 1/4, 1/2, 1/4, 1/2]
   \<and> map (\<lambda>y. phase (details y))
        (emissions (mhGenerator INITIAL_POINT INITIAL_PARAMS DEFAULT_GMM [1/2, 1/4, 1/2, 1/4, 1/2]))
      = [Some ''proposal'', Some ''compute'', Some ''accept'']
   \<and> map isFinishedStep
        (emissions (mhGenerator INITIAL_POINT INITIAL_PARAMS DEFAULT_GMM [1/2, 1/4, 1/2, 1/4, 1/2]))
      = [False, False, True]"
proof -
  have h: "random_run 5 [1/2, 1/4, 1/2, 1/4, 1/2]"
    by (simp add: random_run_def)
  from mh_cycle [OF h, of INITIAL_POINT INITIAL_PARAMS DEFAULT_GMM] h show ?thesis
    by (auto simp: randn_quarter emissions_def Let_def INITIAL_POINT_def)
qed


lemma gibbs_draws:
  assumes "random_run 6 t0"
  shows "\<exists>z1 u1 z2 u2 t1 t2 t3 t4.
           randn t0 = Some (z1, t1) \<and> Math_random t1 = Some (u1, t2)
           \<and> randn t2 = Some (z2, t3) \<and> Math_random t3 = Some (u2, t4)"
proof -
  from assms have "random_run (Suc (Suc 4)) t0"
    by (simp add: numeral_eq_Suc)
  from randn_run [OF this] obtain z1 t1 where
    1: "randn t0 = Some (z1, t1)" "random_run 4 t1" by blast
  from 1(2) have "random_run (Suc 3) t1"
    by (simp add: numeral_eq_Suc)
  from Math_random_run [OF this] obtain u1 t2 where
    2: "Math_random t1 = Some (u1, t2)" "random_run 3 t2" by blast
  from 2(2) have "random_run (Suc (Suc 1)) t2"
    by (simp add: numeral_eq_Suc)
  from randn_run [OF this] obtain z2 t3 where
    3: "randn t2 = Some (z2, t3)" "random_run 1 t3" by blast
  from 3(2) have "random_run (Suc 0) t3" by simp
  from Math_random_run [OF this] obtain u2 t4 where
    4: "Math_random t3 = Some (u2, t4)" by blast
  from 1(1) 2(1) 3(1) 4 show ?thesis by blast
qed

text \<open>
  C8. The \<open>accepted\<close> flag of the terminal record of the Gibbs sampler is true exactly
  when the final point differs from the starting point in \<open>x\<close> or in \<open>y\<close>, whatever
  the random draws, and so whatever the two sub-updates did.
\<close>

theorem gibbs_accepted_is_moved:
  assumes "random_run 6 t0"
  shows "\<exists>y1 y2 y3 ret t. gibbsGenerator cur ps gmm t0 = Some (([y1, y2, y3], ret), t)
           \<and> isFinishedStep y3 \<and> \<not> isFinishedStep y1 \<and> \<not> isFinishedStep y2
           \<and> accepted y3 = Some (xc (current y3) \<noteq> xc cur \<or> yc (current y3) \<noteq> yc cur)
           \<and> (accepted y3 = Some True \<longleftrightarrow> current y3 \<noteq> cur)
           \<and> current ret = current y3"
proof -
  from gibbs_draws [OF assms] obtain z1 u1 z2 u2 t1 t2 t3 t4 where
    d: "randn t0 = Some (z1, t1)" "Math_random t1 = Some (u1, t2)"
       "randn t2 = Some (z2, t3)" "Math_random t3 = Some (u2, t4)" by blast
  have eq: "\<And>a b. (\<lparr>xc = a, yc = b\<rparr> = cur) = (a = xc cur \<and> b = yc cur)"
    by (cases cur) auto
  show ?thesis
    using d by (simp add: gibbsGenerator_def Let_def bare_result_def no_details_def eq)
qed

text \<open>
  A run in which both sub-updates are accepted (both uniform numbers are below the acceptance
  probabilities, which are 1) and the flag is false, since both proposals are the current
  coordinate.
\<close>

theorem gibbs_accepted_is_moved_witness:
  "random_run 6 [1/2, 1/4, 1/2, 1/2, 1/4, 1/2]
   \<and> map accepted
        (emissions (gibbsGenerator INITIAL_POINT INITIAL_PARAMS DEFAULT_GMM [1/2, 1/4, 1/2, 1/2, 1/4, 1/2]))
      = [None, None, Some False]
   \<and> map (\<lambda>y. acceptanceProb (details y))
        (emissions (gibbsGenerator INITIAL_POINT INITIAL_PARAMS DEFAULT_GMM [1/2, 1/4, 1/2, 1/2, 1/4, 1/2]))
      = [None, Some 1, Some 1]
   \<and> map current
        (emissions (gibbsGenerator INITIAL_POINT INITIAL_PARAMS DEFAULT_GMM [1/2, 1/4, 1/2, 1/2, 1/4, 1/2]))
      = [INITIAL_POINT, INITIAL_POINT, INITIAL_POINT]"
proof -
  have h: "random_run 6 [1/2, 1/4, 1/2, 1/2, 1/4, 1/2]"
    by (simp add: random_run_def)
  have g: "map (\<lambda>y. accepted y = None)
        (emissions (gibbsGenerator INITIAL_POINT INITIAL_PARAMS DEFAULT_GMM [1/2, 1/4, 1/2, 1/2, 1/4, 1/2]))
      = [True, True, False]
   \<and> map (\<lambda>y. acceptanceProb (details y))
        (emissions (gibbsGenerator INITIAL_POINT INITIAL_PARAMS DEFAULT_GMM [1/2, 1/4, 1/2, 1/2, 1/4, 1/2]))
      = [None, Some 1, Some 1]
   \<and> map current
        (emissions (gibbsGenerator INITIAL_POINT INITIAL_PARAMS DEFAULT_GMM [1/2, 1/4, 1/2, 1/2, 1/4, 1/2]))
      = [INITIAL_POINT, INITIAL_POINT, INITIAL_POINT]"
    by (simp add: gibbsGenerator_def randn_quarter emissions_def Let_def INITIAL_POINT_def
        bare_result_def no_details_def)
  from gibbs_accepted_is_moved [OF h, of INITIAL_POINT INITIAL_PARAMS DEFAULT_GMM]
  obtain y1 y2 y3 ret t where
    r: "gibbsGenerator INITIAL_POINT INITIAL_PARAMS DEFAULT_GMM [1/2, 1/4, 1/2, 1/2, 1/4, 1/2]
          = Some (([y1, y2, y3], ret), t)"
       "accepted y3 = Some (xc (current y3) \<noteq> xc INITIAL_POINT \<or> yc (current y3) \<noteq> yc INITIAL_POINT)"
    by blast
  from g r(1) have "current y3 = INITIAL_POINT" "accepted y1 = None" "accepted y2 = None"
    "current y1 = INITIAL_POINT" "current y2 = INITIAL_POINT"
    "acceptanceProb (details y1) = None" "acceptanceProb (details y2) = Some 1"
    "acceptanceProb (details y3) = Some 1"
    by (simp_all add: emissions_def)
  with r h show ?thesis
    by (simp add: emissions_def)
qed

section \<open>The leapfrog loop of HMC\<close>

lemma hmc_loop_done: "\<not> i < L \<Longrightarrow> hmc_loop cur gmm e L sd i st = st"
  by (simp add: hmc_loop.simps)

lemma hmc_loop_step:
  "i < L \<Longrightarrow> hmc_loop cur gmm e L sd i st
     = hmc_loop cur gmm e L sd (i + 1) (hmc_body cur gmm e L sd i st)"
  by (subst hmc_loop.simps) simp

lemma nat_diff_step: "i < L \<Longrightarrow> nat (L - i) = Suc (nat (L - (i + 1)))"
  for i L :: int
  by simp

lemma hmc_loop_length:
  "length (hout (hmc_loop cur gmm e L sd i st)) = length (hout st) + nat (L - i)"
proof (induction cur gmm e L sd i st rule: hmc_loop.induct)
  case (1 cur gmm e L sd i st)
  show ?case
  proof (cases "i < L")
    case True
    have "length (hout (hmc_body cur gmm e L sd i st)) = Suc (length (hout st))"
      by (simp add: hmc_body_def Let_def)
    with "1.IH" [OF True] True show ?thesis
      by (simp add: hmc_loop_step nat_diff_step)
  next
    case False
    then show ?thesis by (simp add: hmc_loop_done)
  qed
qed

lemma hmc_loop_last_path:
  "hpath st \<noteq> [] \<Longrightarrow> last (hpath st) = hq st \<Longrightarrow>
     hpath (hmc_loop cur gmm e L sd i st) \<noteq> []
     \<and> last (hpath (hmc_loop cur gmm e L sd i st)) = hq (hmc_loop cur gmm e L sd i st)"
proof (induction cur gmm e L sd i st rule: hmc_loop.induct)
  case (1 cur gmm e L sd i st)
  show ?case
  proof (cases "i < L")
    case True
    have "hpath (hmc_body cur gmm e L sd i st) \<noteq> []"
      "last (hpath (hmc_body cur gmm e L sd i st)) = hq (hmc_body cur gmm e L sd i st)"
      by (simp_all add: hmc_body_def Let_def)
    from "1.IH" [OF True this] True show ?thesis
      by (simp add: hmc_loop_step)
  next
    case False
    with "1.prems" show ?thesis by (simp add: hmc_loop_done)
  qed
qed

text \<open>The loop of the code against the scheme of the specification.\<close>

lemma hmc_loop_scheme:
  "hgrad st = getGradLogProb (hq st) gmm \<Longrightarrow>
     hpath (hmc_loop cur gmm e L sd i st)
       = hpath st @ map fst (spec_full_steps (hmc_force gmm) e (nat (L - i)) (hq st) (hp st))
     \<and> hq (hmc_loop cur gmm e L sd i st)
       = fst (last ((hq st, hp st) # spec_full_steps (hmc_force gmm) e (nat (L - i)) (hq st) (hp st)))
     \<and> hp (hmc_loop cur gmm e L sd i st)
       = snd (last ((hq st, hp st) # spec_full_steps (hmc_force gmm) e (nat (L - i)) (hq st) (hp st)))
     \<and> hgrad (hmc_loop cur gmm e L sd i st) = getGradLogProb (hq (hmc_loop cur gmm e L sd i st)) gmm"
proof (induction cur gmm e L sd i st rule: hmc_loop.induct)
  case (1 cur gmm e L sd i st)
  show ?case
  proof (cases "i < L")
    case True
    let ?b = "hmc_body cur gmm e L sd i st"
    have q: "hq ?b = spec_position e (hq st) (hp st)"
      by (simp add: hmc_body_def Let_def position_step_def spec_position_def)
    have g: "hgrad ?b = getGradLogProb (hq ?b) gmm"
      by (simp add: hmc_body_def Let_def)
    have z: "(nat (L - (i + 1)) = 0) = (i = L - 1)"
      using True by auto
    have p: "hp ?b = (if nat (L - (i + 1)) = 0 then hp st
                      else spec_momentum e (hmc_force gmm) (spec_position e (hq st) (hp st)) (hp st))"
      unfolding z
      by (simp add: hmc_body_def Let_def position_step_def spec_position_def momentum_step_def
          spec_momentum_def hmc_force_def)
    have pa: "hpath ?b = hpath st @ [spec_position e (hq st) (hp st)]"
      by (simp add: hmc_body_def Let_def position_step_def spec_position_def)
    have unfold: "spec_full_steps (hmc_force gmm) e (nat (L - i)) (hq st) (hp st)
        = (hq ?b, hp ?b) # spec_full_steps (hmc_force gmm) e (nat (L - (i + 1))) (hq ?b) (hp ?b)"
      by (simp add: nat_diff_step [OF True] Let_def q p del: nat_diff_distrib)
    from "1.IH" [OF True g] show ?thesis
      by (simp add: hmc_loop_step [OF True] unfold pa q)
  next
    case False
    with "1.prems" show ?thesis by (simp add: hmc_loop_done)
  qed
qed


lemma length_spec_full_steps: "length (spec_full_steps force h n q p) = n"
  by (induction n arbitrary: q p) (simp_all add: Let_def)

lemma normal2_uniform_draws:
  assumes "random_run 5 t0"
  shows "\<exists>z1 z2 dice t1 t2 t3.
           randn t0 = Some (z1, t1) \<and> randn t1 = Some (z2, t2) \<and> Math_random t2 = Some (dice, t3)
           \<and> 0 \<le> dice \<and> dice < 1"
proof -
  from assms have "random_run (Suc (Suc 3)) t0"
    by (simp add: numeral_eq_Suc)
  from randn_run [OF this] obtain z1 t1 where
    1: "randn t0 = Some (z1, t1)" "random_run 3 t1" by blast
  from 1(2) have "random_run (Suc (Suc 1)) t1"
    by (simp add: numeral_eq_Suc)
  from randn_run [OF this] obtain z2 t2 where
    2: "randn t1 = Some (z2, t2)" "random_run 1 t2" by blast
  from 2(2) have "random_run (Suc 0) t2" by simp
  from Math_random_run [OF this] obtain dice t3 where
    3: "Math_random t2 = Some (dice, t3)" "0 \<le> dice" "dice < 1" by blast
  from 1(1) 2(1) 3 show ?thesis by blast
qed

lemma hmc_start_fields:
  "fst (hmc_start cur gmm e z1 z2) = - getLogProb cur gmm + kinetic \<lparr>xc = z1, yc = z2\<rparr>"
  "hq (snd (hmc_start cur gmm e z1 z2)) = cur"
  "hp (snd (hmc_start cur gmm e z1 z2))
     = half_momentum_step e (getGradLogProb cur gmm) \<lparr>xc = z1, yc = z2\<rparr>"
  "hgrad (snd (hmc_start cur gmm e z1 z2)) = getGradLogProb cur gmm"
  "hpath (snd (hmc_start cur gmm e z1 z2)) = [cur]"
  "length (hout (snd (hmc_start cur gmm e z1 z2))) = 1"
  by (simp_all add: hmc_start_def Let_def)

lemma hmc_leapfrog_run:
  assumes "randn t0 = Some (z1, t1)" "randn t1 = Some (z2, t2)"
  shows "hmc_leapfrog cur ps gmm t0
           = Some ((fst (hmc_start cur gmm (stepSize ps * 0.5) z1 z2),
                    hmc_loop cur gmm (stepSize ps * 0.5) (numSteps_or_10 ps)
                      (max 100 \<lfloor>2500 / real_of_int (numSteps_or_10 ps)\<rfloor>) 0
                      (snd (hmc_start cur gmm (stepSize ps * 0.5) z1 z2))), t2)"
  using assms by (simp add: hmc_leapfrog_def Let_def split_beta)

lemma hmc_finish:
  assumes "hmc_leapfrog cur ps gmm t0 = Some ((H0, st), t2)" "Math_random t2 = Some (dice, t3)"
  shows "\<exists>yn ret.
           hmcGenerator cur ps gmm t0 = Some ((hout st @ [yn], ret), t3)
           \<and> path yn = Some (hpath st)
           \<and> isFinishedStep yn
           \<and> currentH (details yn) = Some H0
           \<and> proposedH (details yn)
               = Some (- getLogProb (hq st) gmm
                       + kinetic (half_momentum_step (stepSize ps * 0.5) (hgrad st) (hp st)))
           \<and> accepted yn
               = Some (dice < min 1 (exp (H0
                        - (- getLogProb (hq st) gmm
                           + kinetic (half_momentum_step (stepSize ps * 0.5) (hgrad st) (hp st))))))
           \<and> current yn = (if accepted yn = Some True then hq st else cur)
           \<and> current ret = current yn"
  using assms
  by (simp add: hmcGenerator_def Let_def bare_result_def no_details_def)

text \<open>
  C7. With \<open>numSteps = L \<ge> 1\<close> the terminal record of HMC carries the trajectory of the
  leapfrog scheme: the start and then the \<open>L\<close> positions, \<open>L + 1\<close> points, whether the
  proposal is accepted or not. The scheme is run with the step size \<open>0.5 * stepSize\<close> and the
  force of the code: a half momentum step, \<open>L\<close> position steps each followed by a momentum
  step except the last, and a half momentum step, after which the energy of the proposal is
  taken.
\<close>

theorem hmc_trajectory:
  assumes "random_run 5 t0" and "numSteps ps = Some L" and "1 \<le> L"
  shows "\<exists>z1 z2 dice t1 t2 t3 ys ret traj qL pL.
           randn t0 = Some (z1, t1) \<and> randn t1 = Some (z2, t2) \<and> Math_random t2 = Some (dice, t3)
           \<and> hmcGenerator cur ps gmm t0 = Some ((ys, ret), t3)
           \<and> spec_leapfrog (hmc_force gmm) (0.5 * stepSize ps) (nat L) cur \<lparr>xc = z1, yc = z2\<rparr> = (traj, qL, pL)
           \<and> path (last ys) = Some traj
           \<and> length traj = nat L + 1 \<and> hd traj = cur \<and> last traj = qL
           \<and> isFinishedStep (last ys)
           \<and> currentH (details (last ys)) = Some (- getLogProb cur gmm + kinetic \<lparr>xc = z1, yc = z2\<rparr>)
           \<and> proposedH (details (last ys)) = Some (- getLogProb qL gmm + kinetic pL)
           \<and> accepted (last ys)
               = Some (dice < min 1 (exp ((- getLogProb cur gmm + kinetic \<lparr>xc = z1, yc = z2\<rparr>)
                                          - (- getLogProb qL gmm + kinetic pL))))
           \<and> current (last ys) = (if accepted (last ys) = Some True then qL else cur)"
proof -
  from normal2_uniform_draws [OF assms(1)] obtain z1 z2 dice t1 t2 t3 where
    d: "randn t0 = Some (z1, t1)" "randn t1 = Some (z2, t2)" "Math_random t2 = Some (dice, t3)"
    by blast
  have L: "numSteps_or_10 ps = L"
    using assms(2,3) by (simp add: numSteps_or_10_def)
  define e where "e = stepSize ps * 0.5"
  define p0 where "p0 = \<lparr>xc = z1, yc = z2\<rparr>"
  define ph where "ph = half_momentum_step e (getGradLogProb cur gmm) p0"
  define st0 where "st0 = snd (hmc_start cur gmm e z1 z2)"
  define H0 where "H0 = - getLogProb cur gmm + kinetic p0"
  define sd where "sd = max 100 \<lfloor>2500 / real_of_int L\<rfloor>"
  have lf: "hmc_leapfrog cur ps gmm t0 = Some ((H0, hmc_loop cur gmm e L sd 0 st0), t2)"
    using hmc_leapfrog_run [OF d(1,2), where cur = cur and ps = ps and gmm = gmm]
    by (simp add: L e_def p0_def st0_def H0_def sd_def hmc_start_fields)
  define st where "st = hmc_loop cur gmm e L sd 0 st0"
  have st0: "hq st0 = cur" "hp st0 = ph" "hgrad st0 = getGradLogProb cur gmm" "hpath st0 = [cur]"
    by (simp_all add: st0_def hmc_start_fields ph_def p0_def)
  from hmc_finish [OF lf d(3)] obtain yn ret where
    run: "hmcGenerator cur ps gmm t0 = Some ((hout st @ [yn], ret), t3)"
    and yn: "path yn = Some (hpath st)" "isFinishedStep yn"
      "currentH (details yn) = Some H0"
      "proposedH (details yn) = Some (- getLogProb (hq st) gmm + kinetic (half_momentum_step e (hgrad st) (hp st)))"
      "accepted yn = Some (dice < min 1 (exp (H0
                        - (- getLogProb (hq st) gmm + kinetic (half_momentum_step e (hgrad st) (hp st))))))"
      "current yn = (if accepted yn = Some True then hq st else cur)"
    unfolding e_def st_def by blast
  define tr where "tr = spec_full_steps (hmc_force gmm) e (nat L) cur ph"
  have ph': "ph = spec_momentum (e / 2) (hmc_force gmm) cur p0"
    by (simp add: ph_def half_momentum_step_def spec_momentum_def hmc_force_def)
  have sch: "hpath st = cur # map fst tr" "hq st = fst (last ((cur, ph) # tr))"
    "hp st = snd (last ((cur, ph) # tr))" "hgrad st = getGradLogProb (hq st) gmm"
    using hmc_loop_scheme [of st0 gmm cur e L sd 0]
    by (simp_all add: st_def tr_def st0)
  define qL where "qL = fst (last ((cur, ph) # tr))"
  define pL where "pL = spec_momentum (e / 2) (hmc_force gmm) qL (snd (last ((cur, ph) # tr)))"
  have leap: "spec_leapfrog (hmc_force gmm) (0.5 * stepSize ps) (nat L) cur p0 = (cur # map fst tr, qL, pL)"
    by (simp add: spec_leapfrog_def Let_def ph' tr_def qL_def pL_def e_def mult.commute)
  have pend: "half_momentum_step e (hgrad st) (hp st) = pL"
    by (simp add: sch pL_def qL_def half_momentum_step_def spec_momentum_def hmc_force_def)
  have len: "length (cur # map fst tr) = nat L + 1"
    by (simp add: tr_def length_spec_full_steps)
  have lastq: "last (cur # map fst tr) = qL"
    by (simp add: qL_def last_map)
  have lst: "last (hout st @ [yn]) = yn" by simp
  have hdt: "hd (cur # map fst tr) = cur" by simp
  have pth: "path (last (hout st @ [yn])) = Some (cur # map fst tr)"
    unfolding lst using yn(1) sch(1) by simp
  have fin: "isFinishedStep (last (hout st @ [yn]))"
    unfolding lst by (rule yn(2))
  have cH: "currentH (details (last (hout st @ [yn]))) = Some (- getLogProb cur gmm + kinetic p0)"
    unfolding lst using yn(3) by (simp add: H0_def)
  have pH: "proposedH (details (last (hout st @ [yn]))) = Some (- getLogProb qL gmm + kinetic pL)"
    unfolding lst using yn(4) by (simp add: pend qL_def sch(2))
  have ac: "accepted (last (hout st @ [yn]))
              = Some (dice < min 1 (exp ((- getLogProb cur gmm + kinetic p0)
                                          - (- getLogProb qL gmm + kinetic pL))))"
    unfolding lst using yn(5) by (simp add: pend qL_def sch(2) H0_def)
  have cu: "current (last (hout st @ [yn]))
              = (if accepted (last (hout st @ [yn])) = Some True then qL else cur)"
    unfolding lst using yn(6) by (simp add: qL_def sch(2))
  from d(1) d(2) d(3) run leap pth len hdt lastq fin cH pH ac cu show ?thesis
    unfolding p0_def by blast
qed


theorem hmc_trajectory_witness:
  "random_run 5 [1/2, 1/4, 1/2, 1/4, 1/2] \<and> numSteps INITIAL_PARAMS = Some 10
   \<and> (\<exists>ys ret t pth.
         hmcGenerator INITIAL_POINT INITIAL_PARAMS DEFAULT_GMM [1/2, 1/4, 1/2, 1/4, 1/2]
           = Some ((ys, ret), t)
         \<and> path (last ys) = Some pth \<and> length pth = 11 \<and> hd pth = INITIAL_POINT
         \<and> isFinishedStep (last ys))"
proof -
  have h: "random_run 5 [1/2, 1/4, 1/2, 1/4, 1/2]"
    by (simp add: random_run_def)
  have n: "numSteps INITIAL_PARAMS = Some 10"
    by (simp add: INITIAL_PARAMS_def)
  have l: "(1::int) \<le> 10" by simp
  from hmc_trajectory [OF h n l, of INITIAL_POINT DEFAULT_GMM] h n show ?thesis
    by auto
qed

text \<open>
  The shape of every run of HMC, with \<open>L = numSteps || 10\<close>: one record for the momentum,
  one for each round of the loop, the terminal one; the terminal record has the path, which
  ends at the position the loop ends at.
\<close>

lemma hmc_shape:
  assumes "random_run 5 t0"
  shows "\<exists>ys ret t pth.
           hmcGenerator cur ps gmm t0 = Some ((ys, ret), t)
           \<and> length ys = nat (numSteps_or_10 ps) + 2
           \<and> path (last ys) = Some pth
           \<and> length pth = nat (numSteps_or_10 ps) + 1
           \<and> isFinishedStep (last ys)
           \<and> (current (last ys) = cur \<or> current (last ys) = last pth)"
proof -
  from normal2_uniform_draws [OF assms] obtain z1 z2 dice t1 t2 t3 where
    d: "randn t0 = Some (z1, t1)" "randn t1 = Some (z2, t2)" "Math_random t2 = Some (dice, t3)"
    by blast
  define e where "e = stepSize ps * 0.5"
  define L where "L = numSteps_or_10 ps"
  define sd where "sd = max 100 \<lfloor>2500 / real_of_int L\<rfloor>"
  define st0 where "st0 = snd (hmc_start cur gmm e z1 z2)"
  define st where "st = hmc_loop cur gmm e L sd 0 st0"
  have lf: "hmc_leapfrog cur ps gmm t0 = Some ((fst (hmc_start cur gmm e z1 z2), st), t2)"
    using hmc_leapfrog_run [OF d(1,2), where cur = cur and ps = ps and gmm = gmm]
    by (simp add: L_def e_def st0_def sd_def st_def)
  from hmc_finish [OF lf d(3)] obtain yn ret where
    run: "hmcGenerator cur ps gmm t0 = Some ((hout st @ [yn], ret), t3)"
    and yn: "path yn = Some (hpath st)" "isFinishedStep yn"
      "current yn = (if accepted yn = Some True then hq st else cur)"
    by blast
  have st0: "hq st0 = cur" "hgrad st0 = getGradLogProb cur gmm" "hpath st0 = [cur]"
    "length (hout st0) = 1"
    by (simp_all add: st0_def hmc_start_fields)
  have len: "length (hout st @ [yn]) = nat L + 2"
    using hmc_loop_length [of cur gmm e L sd 0 st0] by (simp add: st_def st0)
  have "hpath st = hpath st0 @ map fst (spec_full_steps (hmc_force gmm) e (nat (L - 0)) (hq st0) (hp st0))"
    using hmc_loop_scheme [of st0 gmm cur e L sd 0] by (simp add: st_def st0)
  then have plen: "length (hpath st) = nat L + 1"
    by (simp add: st0 length_spec_full_steps)
  have lastp: "last (hpath st) = hq st"
    using hmc_loop_last_path [of st0 cur gmm e L sd 0] by (simp add: st_def st0)
  have lst: "last (hout st @ [yn]) = yn" by simp
  have a: "path (last (hout st @ [yn])) = Some (hpath st)"
    unfolding lst by (rule yn(1))
  have b: "isFinishedStep (last (hout st @ [yn]))"
    unfolding lst by (rule yn(2))
  have c: "current (last (hout st @ [yn])) = cur \<or> current (last (hout st @ [yn])) = last (hpath st)"
    unfolding lst lastp using yn(3) by simp
  from run len a plen b c show ?thesis
    unfolding L_def by blast
qed

text \<open>
  C9. With \<open>numSteps\<close> absent or zero the HMC sampler runs with ten leapfrog steps: twelve
  records, and a trajectory of eleven points in the terminal one.
\<close>

theorem hmc_default_numSteps:
  assumes "random_run 5 t0" and "numSteps ps = None \<or> numSteps ps = Some 0"
  shows "\<exists>ys ret t pth.
           hmcGenerator cur ps gmm t0 = Some ((ys, ret), t)
           \<and> length ys = 12
           \<and> path (last ys) = Some pth \<and> length pth = 11
           \<and> isFinishedStep (last ys)"
proof -
  have "numSteps_or_10 ps = 10"
    using assms(2) by (auto simp: numSteps_or_10_def)
  with hmc_shape [OF assms(1), of cur ps gmm] show ?thesis
    by auto
qed

theorem hmc_default_numSteps_witness:
  "random_run 5 [1/2, 1/4, 1/2, 1/4, 1/2]
   \<and> (\<exists>ys ret t pth.
         hmcGenerator INITIAL_POINT \<lparr>stepSize = 0.5, numSteps = None, friction = None\<rparr> DEFAULT_GMM
           [1/2, 1/4, 1/2, 1/4, 1/2] = Some ((ys, ret), t)
         \<and> length ys = 12 \<and> path (last ys) = Some pth \<and> length pth = 11)
   \<and> (\<exists>ys ret t pth.
         hmcGenerator INITIAL_POINT \<lparr>stepSize = 0.5, numSteps = Some 0, friction = None\<rparr> DEFAULT_GMM
           [1/2, 1/4, 1/2, 1/4, 1/2] = Some ((ys, ret), t)
         \<and> length ys = 12 \<and> path (last ys) = Some pth \<and> length pth = 11)"
proof -
  have h: "random_run 5 [1/2, 1/4, 1/2, 1/4, 1/2]"
    by (simp add: random_run_def)
  have a: "numSteps \<lparr>stepSize = 0.5, numSteps = None, friction = None\<rparr> = None
           \<or> numSteps \<lparr>stepSize = 0.5, numSteps = None, friction = None\<rparr> = Some 0"
    by simp
  have b: "numSteps \<lparr>stepSize = 0.5, numSteps = Some 0, friction = None\<rparr> = None
           \<or> numSteps \<lparr>stepSize = 0.5, numSteps = Some 0, friction = None\<rparr> = Some 0"
    by simp
  from hmc_default_numSteps [OF h a, of INITIAL_POINT DEFAULT_GMM]
    hmc_default_numSteps [OF h b, of INITIAL_POINT DEFAULT_GMM] h
  show ?thesis by blast
qed


section \<open>The tree-building loop of NUTS\<close>

lemma nuts_loop_done:
  "stopped st \<or> maxSteps \<le> steps st \<Longrightarrow> nuts_loop cur gmm e H0 lu st = st"
  by (subst nuts_loop.simps) auto

lemma nuts_loop_step:
  "\<not> stopped st \<Longrightarrow> steps st < maxSteps \<Longrightarrow>
     nuts_loop cur gmm e H0 lu st = nuts_loop cur gmm e H0 lu (nuts_body cur gmm e H0 lu st)"
  by (subst nuts_loop.simps) simp

lemma nuts_loop_exit:
  "stopped (nuts_loop cur gmm e H0 lu st) \<or> maxSteps \<le> steps (nuts_loop cur gmm e H0 lu st)"
proof (induction cur gmm e H0 lu st rule: nuts_loop.induct)
  case (1 cur gmm e H0 lu st)
  show ?case
  proof (cases "\<not> stopped st \<and> steps st < maxSteps")
    case True
    with "1.IH" show ?thesis by (simp add: nuts_loop_step)
  next
    case False
    then show ?thesis by (auto simp: nuts_loop_done)
  qed
qed

lemma nuts_body_inv:
  assumes "nuts_inv cur s" "\<not> stopped s" "steps s < maxSteps"
  shows "nuts_inv cur (nuts_body cur gmm e H0 lu s)"
  using assms
  by (auto simp: nuts_inv_def nuts_body_def Let_def bare_result_def no_details_def)

lemma nuts_loop_inv:
  "nuts_inv cur st \<Longrightarrow> nuts_inv cur (nuts_loop cur gmm e H0 lu st)"
proof (induction cur gmm e H0 lu st rule: nuts_loop.induct)
  case (1 cur gmm e H0 lu st)
  show ?case
  proof (cases "\<not> stopped st \<and> steps st < maxSteps")
    case True
    then have "nuts_inv cur (nuts_body cur gmm e H0 lu st)"
      using "1.prems" by (simp add: nuts_body_inv)
    with "1.IH" True show ?thesis by (simp add: nuts_loop_step)
  next
    case False
    with "1.prems" show ?thesis by (auto simp: nuts_loop_done)
  qed
qed

lemma nuts_body_grows: "length (nout (nuts_body cur gmm e H0 lu s)) = Suc (length (nout s))"
  by (simp add: nuts_body_def Let_def)

lemma nuts_loop_grows: "length (nout st) \<le> length (nout (nuts_loop cur gmm e H0 lu st))"
proof (induction cur gmm e H0 lu st rule: nuts_loop.induct)
  case (1 cur gmm e H0 lu st)
  show ?case
  proof (cases "\<not> stopped st \<and> steps st < maxSteps")
    case True
    with "1.IH" show ?thesis by (simp add: nuts_loop_step nuts_body_grows)
  next
    case False
    then show ?thesis by (auto simp: nuts_loop_done)
  qed
qed


lemma nuts_draws:
  assumes "random_run 6 t0"
  shows "\<exists>z1 z2 u0 u t1 t2 t3 t4.
           randn t0 = Some (z1, t1) \<and> randn t1 = Some (z2, t2)
           \<and> Math_random t2 = Some (u0, t3) \<and> 0 \<le> u0 \<and> u0 < 1
           \<and> Math_random t3 = Some (u, t4) \<and> 0 \<le> u \<and> u < 1"
proof -
  from assms have "random_run (Suc (Suc 4)) t0"
    by (simp add: numeral_eq_Suc)
  from randn_run [OF this] obtain z1 t1 where
    1: "randn t0 = Some (z1, t1)" "random_run 4 t1" by blast
  from 1(2) have "random_run (Suc (Suc 2)) t1"
    by (simp add: numeral_eq_Suc)
  from randn_run [OF this] obtain z2 t2 where
    2: "randn t1 = Some (z2, t2)" "random_run 2 t2" by blast
  from 2(2) have "random_run (Suc 1) t2"
    by (simp add: numeral_eq_Suc)
  from Math_random_run [OF this] obtain u0 t3 where
    3: "Math_random t2 = Some (u0, t3)" "0 \<le> u0" "u0 < 1" "random_run 1 t3" by blast
  from 3(4) have "random_run (Suc 0) t3" by simp
  from Math_random_run [OF this] obtain u t4 where
    4: "Math_random t3 = Some (u, t4)" "0 \<le> u" "u < 1" by blast
  from 1(1) 2(1) 3(1,2,3) 4 show ?thesis by blast
qed

lemma nuts_start_inv: "nuts_inv cur (snd (snd (nuts_start cur gmm e z1 z2 u0)))"
  by (simp add: nuts_inv_def nuts_start_def Let_def maxSteps_def bare_result_def no_details_def)

lemma nuts_start_enters:
  "\<not> stopped (snd (snd (nuts_start cur gmm e z1 z2 u0)))"
  "steps (snd (snd (nuts_start cur gmm e z1 z2 u0))) < maxSteps"
  "length (nout (snd (snd (nuts_start cur gmm e z1 z2 u0)))) = 1"
  by (simp_all add: nuts_start_def Let_def maxSteps_def)

lemma nuts_start_slice:
  assumes "0 \<le> u0" "u0 < 1"
  shows "in_slice (fst (nuts_start cur gmm e z1 z2 u0)) (fst (snd (nuts_start cur gmm e z1 z2 u0)))"
proof (cases "u0 = 0")
  case True
  then show ?thesis
    by (simp add: nuts_start_def Let_def slice_level_def in_slice_def)
next
  case False
  with assms have "ln u0 \<le> 0" by simp
  with False show ?thesis
    by (simp add: nuts_start_def Let_def slice_level_def in_slice_def)
qed

lemma nuts_tree_run:
  assumes "randn t0 = Some (z1, t1)" "randn t1 = Some (z2, t2)" "Math_random t2 = Some (u0, t3)"
  shows "nuts_tree cur ps gmm t0
           = Some ((fst (nuts_start cur gmm (stepSize ps * 0.4) z1 z2 u0),
                    fst (snd (nuts_start cur gmm (stepSize ps * 0.4) z1 z2 u0)),
                    nuts_loop cur gmm (stepSize ps * 0.4)
                      (fst (nuts_start cur gmm (stepSize ps * 0.4) z1 z2 u0))
                      (fst (snd (nuts_start cur gmm (stepSize ps * 0.4) z1 z2 u0)))
                      (snd (snd (nuts_start cur gmm (stepSize ps * 0.4) z1 z2 u0)))), t3)"
  using assms by (simp add: nuts_tree_def Let_def split_beta)

lemma nuts_select_run:
  assumes "Math_random t3 = Some (u, t4)" "cands \<noteq> []"
  shows "nuts_select cur cands t3
           = Some ((cands ! nat \<lfloor>u * real (length cands)\<rfloor>, True), t4)
         \<and> nat \<lfloor>u * real (length cands)\<rfloor> < length cands"
proof -
  from Math_random_range [OF assms(1)] have "0 \<le> u" "u < 1" by simp_all
  from js_index_floor [OF this assms(2)] assms show ?thesis
    by (simp add: nuts_select_def Let_def)
qed

lemma nuts_finish:
  assumes "nuts_tree cur ps gmm t0 = Some ((H0, lu, st), t3)"
    and "nuts_select cur (validCandidates st) t3 = Some ((nextQ, acc), t4)"
  shows "\<exists>yn ret.
           nutsGenerator cur ps gmm t0 = Some ((nout st @ [yn], ret), t4)
           \<and> current yn = nextQ \<and> accepted yn = Some acc \<and> isFinishedStep yn
           \<and> path yn = Some (npath st) \<and> phase (details yn) = Some ''accept''
           \<and> current ret = nextQ"
  using assms
  by (simp add: nutsGenerator_def Let_def bare_result_def no_details_def)



section \<open>Runs of the four samplers\<close>

lemma mh_shape:
  assumes "random_run 5 t0"
  shows "\<exists>y1 y2 y3 ret t.
           mhGenerator cur ps gmm t0 = Some (([y1, y2, y3], ret), t)
           \<and> (current y3 = cur \<or> Some (current y3) = proposal y3)"
proof -
  from normal2_uniform_draws [OF assms] obtain z1 z2 dice t1 t2 t3 where
    "randn t0 = Some (z1, t1)" "randn t1 = Some (z2, t2)" "Math_random t2 = Some (dice, t3)"
    by blast
  then show ?thesis
    by (simp add: mhGenerator_def Let_def bare_result_def no_details_def)
qed

lemma gibbs_shape:
  assumes "random_run 6 t0"
  shows "\<exists>y1 y2 y3 ret t.
           gibbsGenerator cur ps gmm t0 = Some (([y1, y2, y3], ret), t)
           \<and> (current y3 = cur \<or> Some (current y3) = proposal y2 \<or> Some (current y3) = proposal y3)"
proof -
  from gibbs_draws [OF assms] obtain z1 u1 z2 u2 t1 t2 t3 t4 where
    "randn t0 = Some (z1, t1)" "Math_random t1 = Some (u1, t2)"
    "randn t2 = Some (z2, t3)" "Math_random t3 = Some (u2, t4)" by blast
  then show ?thesis
    by (simp add: gibbsGenerator_def Let_def bare_result_def no_details_def)
qed


lemma nuts_body_candidates:
  "validCandidates (nuts_body cur gmm e H0 lu s)
     = validCandidates s
       @ (if in_slice (nuts_currH gmm e (position_step e (nq s) (np s)) (np s)) lu
          then [position_step e (nq s) (np s)] else [])"
  by (simp add: nuts_body_def Let_def)

text \<open>
  C4, as the code has it. The terminal point of Metropolis-Hastings is the starting point or
  the proposal; that of HMC is the starting point or the last point of the trajectory; that of
  Gibbs is the starting point, the proposal of the \<open>x\<close> update (second record) or the proposal
  of the \<open>y\<close> update (third record).
\<close>

theorem terminal_point_origin:
  assumes "random_run 6 t0"
  shows "(\<exists>y1 y2 y3 ret t.
            mhGenerator cur ps gmm t0 = Some (([y1, y2, y3], ret), t)
            \<and> (current y3 = cur \<or> Some (current y3) = proposal y3))
       \<and> (\<exists>y1 y2 y3 ret t.
            gibbsGenerator cur ps gmm t0 = Some (([y1, y2, y3], ret), t)
            \<and> (current y3 = cur \<or> Some (current y3) = proposal y2
                \<or> Some (current y3) = proposal y3))
       \<and> (\<exists>ys ret t pth.
            hmcGenerator cur ps gmm t0 = Some ((ys, ret), t)
            \<and> path (last ys) = Some pth \<and> isFinishedStep (last ys)
            \<and> (current (last ys) = cur \<or> current (last ys) = last pth))"
proof (intro conjI)
  have r5: "random_run 5 t0"
    using assms by (rule random_run_mono) simp
  show "\<exists>y1 y2 y3 ret t.
            mhGenerator cur ps gmm t0 = Some (([y1, y2, y3], ret), t)
            \<and> (current y3 = cur \<or> Some (current y3) = proposal y3)"
    using r5 by (rule mh_shape)
  show "\<exists>y1 y2 y3 ret t.
            gibbsGenerator cur ps gmm t0 = Some (([y1, y2, y3], ret), t)
            \<and> (current y3 = cur \<or> Some (current y3) = proposal y2
                \<or> Some (current y3) = proposal y3)"
    using assms by (rule gibbs_shape)
  from hmc_shape [OF r5, of cur ps gmm]
  show "\<exists>ys ret t pth.
            hmcGenerator cur ps gmm t0 = Some ((ys, ret), t)
            \<and> path (last ys) = Some pth \<and> isFinishedStep (last ys)
            \<and> (current (last ys) = cur \<or> current (last ys) = last pth)"
    by blast
qed

section \<open>The rounds of the tree-building loop\<close>

text \<open>What one round does to the state.\<close>

lemma nuts_body_fields:
  "nq (nuts_body cur gmm e H0 lu s) = round_position e s"
  "np (nuts_body cur gmm e H0 lu s)
     = (if round_dot cur e s < 0 then np s
        else momentum_step e (getGradLogProb (round_position e s) gmm) (np s))"
  "steps (nuts_body cur gmm e H0 lu s) = (if round_dot cur e s < 0 then steps s else steps s + 1)"
  "stopped (nuts_body cur gmm e H0 lu s)
     = (stopped s \<or> 1000 < round_H gmm e s - H0 \<or> round_dot cur e s < 0)"
  "reason (nuts_body cur gmm e H0 lu s)
     = (if round_dot cur e s < 0 then ''U-Turn Detected''
        else if 1000 < round_H gmm e s - H0 then ''Divergence'' else reason s)"
  "npath (nuts_body cur gmm e H0 lu s) = npath s @ [round_position e s]"
  "validCandidates (nuts_body cur gmm e H0 lu s)
     = validCandidates s @ (if in_slice (round_H gmm e s) lu then [round_position e s] else [])"
  by (simp_all add: nuts_body_def Let_def round_position_def round_H_def round_dot_def)

lemma nuts_round_0: "nuts_round cur gmm e H0 lu st0 0 = st0"
  by (simp add: nuts_round_def)

lemma nuts_round_Suc:
  "nuts_round cur gmm e H0 lu st0 (Suc k)
     = nuts_body cur gmm e H0 lu (nuts_round cur gmm e H0 lu st0 k)"
  by (simp add: nuts_round_def)

lemma nuts_round_shift:
  "nuts_round cur gmm e H0 lu st0 (Suc k)
     = nuts_round cur gmm e H0 lu (nuts_body cur gmm e H0 lu st0) k"
  by (simp add: nuts_round_def funpow_swap1)

text \<open>The loop is the iteration of its body up to the first state that is stopped or at the cap.\<close>

lemma nuts_loop_rounds:
  "\<exists>n. nuts_loop cur gmm e H0 lu st = nuts_round cur gmm e H0 lu st n
       \<and> (\<forall>k<n. \<not> stopped (nuts_round cur gmm e H0 lu st k)
                  \<and> steps (nuts_round cur gmm e H0 lu st k) < maxSteps)
       \<and> (stopped (nuts_round cur gmm e H0 lu st n)
           \<or> maxSteps \<le> steps (nuts_round cur gmm e H0 lu st n))"
proof (induction cur gmm e H0 lu st rule: nuts_loop.induct)
  case (1 cur gmm e H0 lu st)
  show ?case
  proof (cases "\<not> stopped st \<and> steps st < maxSteps")
    case True
    from "1.IH" [OF True] obtain n where
      n: "nuts_loop cur gmm e H0 lu (nuts_body cur gmm e H0 lu st)
            = nuts_round cur gmm e H0 lu (nuts_body cur gmm e H0 lu st) n"
         "\<forall>k<n. \<not> stopped (nuts_round cur gmm e H0 lu (nuts_body cur gmm e H0 lu st) k)
                  \<and> steps (nuts_round cur gmm e H0 lu (nuts_body cur gmm e H0 lu st) k) < maxSteps"
         "stopped (nuts_round cur gmm e H0 lu (nuts_body cur gmm e H0 lu st) n)
           \<or> maxSteps \<le> steps (nuts_round cur gmm e H0 lu (nuts_body cur gmm e H0 lu st) n)"
      by blast
    have a: "nuts_loop cur gmm e H0 lu st = nuts_round cur gmm e H0 lu st (Suc n)"
      using True n(1) by (simp add: nuts_loop_step nuts_round_shift)
    have b: "\<forall>k<Suc n. \<not> stopped (nuts_round cur gmm e H0 lu st k)
                  \<and> steps (nuts_round cur gmm e H0 lu st k) < maxSteps"
    proof (intro allI impI)
      fix k assume k: "k < Suc n"
      show "\<not> stopped (nuts_round cur gmm e H0 lu st k)
                  \<and> steps (nuts_round cur gmm e H0 lu st k) < maxSteps"
      proof (cases k)
        case 0
        with True show ?thesis by (simp add: nuts_round_0)
      next
        case (Suc j)
        with k n(2) show ?thesis by (simp add: nuts_round_shift)
      qed
    qed
    have c: "stopped (nuts_round cur gmm e H0 lu st (Suc n))
           \<or> maxSteps \<le> steps (nuts_round cur gmm e H0 lu st (Suc n))"
      using n(3) by (simp add: nuts_round_shift)
    from a b c show ?thesis by blast
  next
    case False
    then have "nuts_loop cur gmm e H0 lu st = nuts_round cur gmm e H0 lu st 0"
      by (auto simp: nuts_loop_done nuts_round_0)
    moreover have "stopped (nuts_round cur gmm e H0 lu st 0)
           \<or> maxSteps \<le> steps (nuts_round cur gmm e H0 lu st 0)"
      using False by (auto simp: nuts_round_0)
    ultimately show ?thesis by (intro exI [of _ 0]) simp
  qed
qed

lemma nuts_round_out:
  "length (nout (nuts_round cur gmm e H0 lu st k)) = length (nout st) + k"
  by (induction k) (simp_all add: nuts_round_0 nuts_round_Suc nuts_body_grows)

lemma nuts_round_inv:
  assumes "nuts_inv cur st"
    and "\<forall>j<k. \<not> stopped (nuts_round cur gmm e H0 lu st j)
               \<and> steps (nuts_round cur gmm e H0 lu st j) < maxSteps"
  shows "nuts_inv cur (nuts_round cur gmm e H0 lu st k)"
  using assms(2)
proof (induction k)
  case 0
  with assms(1) show ?case by (simp add: nuts_round_0)
next
  case (Suc k)
  then have "nuts_inv cur (nuts_round cur gmm e H0 lu st k)" by simp
  moreover from Suc.prems have "\<not> stopped (nuts_round cur gmm e H0 lu st k)"
    "steps (nuts_round cur gmm e H0 lu st k) < maxSteps" by simp_all
  ultimately show ?case
    by (simp add: nuts_round_Suc nuts_body_inv)
qed

lemma nuts_round_path:
  "npath (nuts_round cur gmm e H0 lu st k)
     = npath st @ map (\<lambda>j. round_position e (nuts_round cur gmm e H0 lu st j)) [0..<k]"
  by (induction k) (simp_all add: nuts_round_0 nuts_round_Suc nuts_body_fields)


lemma nuts_round_candidates:
  "validCandidates (nuts_round cur gmm e H0 lu st k)
     = validCandidates st
       @ map (\<lambda>j. round_position e (nuts_round cur gmm e H0 lu st j))
           (filter (\<lambda>j. in_slice (round_H gmm e (nuts_round cur gmm e H0 lu st j)) lu) [0..<k])"
  by (induction k) (simp_all add: nuts_round_0 nuts_round_Suc nuts_body_fields)


text \<open>
  A run of NUTS, round by round: \<open>n\<close> rounds of the body from the state \<open>st0\<close> in which the
  loop is entered, none of the states before the last stopped or at the cap.
\<close>

lemma nuts_rounds:
  assumes "random_run 6 t0"
  shows "\<exists>z1 z2 u0 u t1 t2 t3 t4 H0 lu st0 n yn ret.
           randn t0 = Some (z1, t1) \<and> randn t1 = Some (z2, t2)
           \<and> Math_random t2 = Some (u0, t3) \<and> Math_random t3 = Some (u, t4)
           \<and> nuts_start cur gmm (stepSize ps * 0.4) z1 z2 u0 = (H0, lu, st0)
           \<and> nuts_tree cur ps gmm t0 = Some ((H0, lu, nuts_round cur gmm (stepSize ps * 0.4) H0 lu st0 n), t3)
           \<and> nutsGenerator cur ps gmm t0 = Some ((nout (nuts_round cur gmm (stepSize ps * 0.4) H0 lu st0 n) @ [yn], ret), t4)
           \<and> 1 \<le> n \<and> n \<le> 50
           \<and> length (nout (nuts_round cur gmm (stepSize ps * 0.4) H0 lu st0 n)) = n + 1
           \<and> nuts_inv cur (nuts_round cur gmm (stepSize ps * 0.4) H0 lu st0 n)
           \<and> (\<forall>k<n. \<not> stopped (nuts_round cur gmm (stepSize ps * 0.4) H0 lu st0 k) \<and> steps (nuts_round cur gmm (stepSize ps * 0.4) H0 lu st0 k) < maxSteps
                      \<and> steps (nuts_round cur gmm (stepSize ps * 0.4) H0 lu st0 k) = int k \<and> reason (nuts_round cur gmm (stepSize ps * 0.4) H0 lu st0 k) = [])
           \<and> (stopped (nuts_round cur gmm (stepSize ps * 0.4) H0 lu st0 n) \<or> maxSteps \<le> steps (nuts_round cur gmm (stepSize ps * 0.4) H0 lu st0 n))
           \<and> npath st0 = [cur] \<and> validCandidates st0 = [cur]
           \<and> in_slice H0 lu
           \<and> nat \<lfloor>u * real (length (validCandidates (nuts_round cur gmm (stepSize ps * 0.4) H0 lu st0 n)))\<rfloor>
                < length (validCandidates (nuts_round cur gmm (stepSize ps * 0.4) H0 lu st0 n))
           \<and> current yn = validCandidates (nuts_round cur gmm (stepSize ps * 0.4) H0 lu st0 n)
                ! nat \<lfloor>u * real (length (validCandidates (nuts_round cur gmm (stepSize ps * 0.4) H0 lu st0 n)))\<rfloor>
           \<and> accepted yn = Some True \<and> isFinishedStep yn
           \<and> path yn = Some (npath (nuts_round cur gmm (stepSize ps * 0.4) H0 lu st0 n)) \<and> phase (details yn) = Some ''accept''
           \<and> current ret = current yn"
proof -
  from nuts_draws [OF assms] obtain z1 z2 u0 u t1 t2 t3 t4 where
    d: "randn t0 = Some (z1, t1)" "randn t1 = Some (z2, t2)" "Math_random t2 = Some (u0, t3)"
    and u0: "0 \<le> u0" "u0 < 1"
    and u: "Math_random t3 = Some (u, t4)" by blast
  define e where "e = stepSize ps * 0.4"
  define H0 where "H0 = fst (nuts_start cur gmm e z1 z2 u0)"
  define lu where "lu = fst (snd (nuts_start cur gmm e z1 z2 u0))"
  define st0 where "st0 = snd (snd (nuts_start cur gmm e z1 z2 u0))"
  have start: "nuts_start cur gmm e z1 z2 u0 = (H0, lu, st0)"
    by (simp add: H0_def lu_def st0_def)
  have s0: "\<not> stopped st0" "steps st0 < maxSteps" "length (nout st0) = 1"
    unfolding st0_def by (rule nuts_start_enters)+
  have s0': "npath st0 = [cur]" "validCandidates st0 = [cur]"
    by (simp_all add: st0_def nuts_start_def Let_def)
  have inv0: "nuts_inv cur st0"
    unfolding st0_def by (rule nuts_start_inv)
  from nuts_loop_rounds [of cur gmm e H0 lu st0] obtain n where
    loop: "nuts_loop cur gmm e H0 lu st0 = nuts_round cur gmm e H0 lu st0 n"
    and before: "\<forall>k<n. \<not> stopped (nuts_round cur gmm e H0 lu st0 k)
                  \<and> steps (nuts_round cur gmm e H0 lu st0 k) < maxSteps"
    and ex: "stopped (nuts_round cur gmm e H0 lu st0 n)
           \<or> maxSteps \<le> steps (nuts_round cur gmm e H0 lu st0 n)"
    by blast
  define st where "st = nuts_round cur gmm e H0 lu st0 n"
  have tree: "nuts_tree cur ps gmm t0 = Some ((H0, lu, st), t3)"
    using nuts_tree_run [OF d, where cur = cur and ps = ps and gmm = gmm] loop
    by (simp add: e_def H0_def lu_def st0_def st_def)
  have out: "\<And>k. length (nout (nuts_round cur gmm e H0 lu st0 k)) = k + 1"
    by (simp add: nuts_round_out s0(3))
  have invk: "\<And>k. k \<le> n \<Longrightarrow> nuts_inv cur (nuts_round cur gmm e H0 lu st0 k)"
    using before by (intro nuts_round_inv [OF inv0]) simp
  have each: "\<forall>k<n. \<not> stopped (nuts_round cur gmm e H0 lu st0 k)
                  \<and> steps (nuts_round cur gmm e H0 lu st0 k) < maxSteps
                  \<and> steps (nuts_round cur gmm e H0 lu st0 k) = int k
                  \<and> reason (nuts_round cur gmm e H0 lu st0 k) = []"
  proof (intro allI impI)
    fix k assume k: "k < n"
    then have i: "nuts_inv cur (nuts_round cur gmm e H0 lu st0 k)"
      by (simp add: invk)
    from k before have b: "\<not> stopped (nuts_round cur gmm e H0 lu st0 k)"
      "steps (nuts_round cur gmm e H0 lu st0 k) < maxSteps" by simp_all
    from i b(1) out [of k] have "steps (nuts_round cur gmm e H0 lu st0 k) = int k"
      "reason (nuts_round cur gmm e H0 lu st0 k) = []"
      by (simp_all add: nuts_inv_def)
    with b show "\<not> stopped (nuts_round cur gmm e H0 lu st0 k)
                  \<and> steps (nuts_round cur gmm e H0 lu st0 k) < maxSteps
                  \<and> steps (nuts_round cur gmm e H0 lu st0 k) = int k
                  \<and> reason (nuts_round cur gmm e H0 lu st0 k) = []"
      by simp
  qed
  have n1: "1 \<le> n"
  proof (rule ccontr)
    assume "\<not> 1 \<le> n"
    then have "n = 0" by simp
    with ex s0 show False by (simp add: nuts_round_0)
  qed
  have n50: "n \<le> 50"
  proof -
    from n1 have "n - 1 < n" by simp
    with each have "steps (nuts_round cur gmm e H0 lu st0 (n - 1)) < maxSteps
      \<and> steps (nuts_round cur gmm e H0 lu st0 (n - 1)) = int (n - 1)" by blast
    then have "int (n - 1) < 50" by (simp add: maxSteps_def)
    then show ?thesis by linarith
  qed
  have inv: "nuts_inv cur st"
    unfolding st_def by (rule invk) simp
  have sl: "in_slice H0 lu"
    unfolding H0_def lu_def using u0 by (rule nuts_start_slice)
  from inv have ne: "validCandidates st \<noteq> []"
    by (simp add: nuts_inv_def)
  from nuts_select_run [OF u ne, of cur] have
    sel: "nuts_select cur (validCandidates st) t3
            = Some ((validCandidates st ! nat \<lfloor>u * real (length (validCandidates st))\<rfloor>, True), t4)"
    and idx: "nat \<lfloor>u * real (length (validCandidates st))\<rfloor> < length (validCandidates st)"
    by simp_all
  from nuts_finish [OF tree sel] obtain yn ret where
    fin: "nutsGenerator cur ps gmm t0 = Some ((nout st @ [yn], ret), t4)"
    "current yn = validCandidates st ! nat \<lfloor>u * real (length (validCandidates st))\<rfloor>"
    "accepted yn = Some True" "isFinishedStep yn"
    "path yn = Some (npath st)" "phase (details yn) = Some ''accept''"
    "current ret = current yn"
    by auto
  have outn: "length (nout st) = n + 1"
    unfolding st_def by (rule out)
  from d u start tree fin n1 n50 outn inv each ex s0' sl idx show ?thesis
    unfolding st_def e_def by blast
qed

section \<open>Emission counts and the selection of NUTS\<close>


text \<open>
  C5, as the code has it. The loop makes \<open>n \<ge> 1\<close> rounds. The path is the starting point
  followed by the positions of the rounds, and the candidates are the starting point, which is
  in the slice, followed by those positions of the rounds whose energy is in the slice
  (\<open>-H \<ge> log_u\<close>), in order. So there always is a candidate: the terminal record has
  \<open>accepted = true\<close>, and its point is the candidate at the index \<open>floor (u * length)\<close>,
  \<open>u\<close> being the last uniform number. When no position of the loop is in the slice the only
  candidate is the starting point, and the terminal point is the starting point, again with
  \<open>accepted = true\<close>. A round sets the position, the path and the candidates as stated last.
\<close>

theorem nuts_selection:
  assumes "random_run 6 t0"
  shows "(\<exists>z1 z2 u0 u t1 t2 t3 t4 H0 lu st0 n ys ret.
           randn t0 = Some (z1, t1) \<and> randn t1 = Some (z2, t2)
           \<and> Math_random t2 = Some (u0, t3) \<and> Math_random t3 = Some (u, t4)
           \<and> nuts_start cur gmm (stepSize ps * 0.4) z1 z2 u0 = (H0, lu, st0)
           \<and> nuts_tree cur ps gmm t0
               = Some ((H0, lu, nuts_round cur gmm (stepSize ps * 0.4) H0 lu st0 n), t3)
           \<and> nutsGenerator cur ps gmm t0 = Some ((ys, ret), t4)
           \<and> 1 \<le> n
           \<and> (\<forall>k<n. \<not> stopped (nuts_round cur gmm (stepSize ps * 0.4) H0 lu st0 k)
                    \<and> steps (nuts_round cur gmm (stepSize ps * 0.4) H0 lu st0 k) < maxSteps)
           \<and> (stopped (nuts_round cur gmm (stepSize ps * 0.4) H0 lu st0 n)
               \<or> maxSteps \<le> steps (nuts_round cur gmm (stepSize ps * 0.4) H0 lu st0 n))
           \<and> in_slice H0 lu
           \<and> npath (nuts_round cur gmm (stepSize ps * 0.4) H0 lu st0 n)
               = cur # map (\<lambda>k. round_position (stepSize ps * 0.4)
                                   (nuts_round cur gmm (stepSize ps * 0.4) H0 lu st0 k)) [0..<n]
           \<and> path (last ys) = Some (npath (nuts_round cur gmm (stepSize ps * 0.4) H0 lu st0 n))
           \<and> validCandidates (nuts_round cur gmm (stepSize ps * 0.4) H0 lu st0 n)
               = cur # map (\<lambda>k. round_position (stepSize ps * 0.4)
                                   (nuts_round cur gmm (stepSize ps * 0.4) H0 lu st0 k))
                         (filter (\<lambda>k. in_slice (round_H gmm (stepSize ps * 0.4)
                                      (nuts_round cur gmm (stepSize ps * 0.4) H0 lu st0 k)) lu)
                            [0..<n])
           \<and> isFinishedStep (last ys)
           \<and> accepted (last ys) = Some True
           \<and> nat \<lfloor>u * real (length (validCandidates
                        (nuts_round cur gmm (stepSize ps * 0.4) H0 lu st0 n)))\<rfloor>
               < length (validCandidates (nuts_round cur gmm (stepSize ps * 0.4) H0 lu st0 n))
           \<and> current (last ys)
               = validCandidates (nuts_round cur gmm (stepSize ps * 0.4) H0 lu st0 n)
                 ! nat \<lfloor>u * real (length (validCandidates
                          (nuts_round cur gmm (stepSize ps * 0.4) H0 lu st0 n)))\<rfloor>
           \<and> ((\<forall>k<n. \<not> in_slice (round_H gmm (stepSize ps * 0.4)
                            (nuts_round cur gmm (stepSize ps * 0.4) H0 lu st0 k)) lu)
                \<longrightarrow> validCandidates (nuts_round cur gmm (stepSize ps * 0.4) H0 lu st0 n) = [cur]
                    \<and> current (last ys) = cur)
           \<and> validCandidates (nuts_round cur gmm (stepSize ps * 0.4) H0 lu st0 n) \<noteq> []
           \<and> hd (validCandidates (nuts_round cur gmm (stepSize ps * 0.4) H0 lu st0 n)) = cur
           \<and> (tl (validCandidates (nuts_round cur gmm (stepSize ps * 0.4) H0 lu st0 n)) = []
                \<longrightarrow> current (last ys) = cur)
           \<and> current ret = current (last ys))
       \<and> validCandidates (nuts_body cur gmm e H lv s)
           = validCandidates s
             @ (if in_slice (nuts_currH gmm e (position_step e (nq s) (np s)) (np s)) lv
                then [position_step e (nq s) (np s)] else [])
       \<and> nq (nuts_body cur gmm e H lv s) = round_position e s
       \<and> npath (nuts_body cur gmm e H lv s) = npath s @ [round_position e s]
       \<and> validCandidates (nuts_body cur gmm e H lv s)
           = validCandidates s @ (if in_slice (round_H gmm e s) lv then [round_position e s] else [])"
proof (intro conjI)
  show "validCandidates (nuts_body cur gmm e H lv s)
           = validCandidates s
             @ (if in_slice (nuts_currH gmm e (position_step e (nq s) (np s)) (np s)) lv
                then [position_step e (nq s) (np s)] else [])"
    by (rule nuts_body_candidates)
  show "nq (nuts_body cur gmm e H lv s) = round_position e s"
    by (rule nuts_body_fields)
  show "npath (nuts_body cur gmm e H lv s) = npath s @ [round_position e s]"
    by (rule nuts_body_fields)
  show "validCandidates (nuts_body cur gmm e H lv s)
           = validCandidates s @ (if in_slice (round_H gmm e s) lv then [round_position e s] else [])"
    by (rule nuts_body_fields)
  define a where "a = stepSize ps * 0.4"
  from nuts_rounds [OF assms, of cur gmm ps, folded a_def]
  obtain z1 z2 u0 u t1 t2 t3 t4 H0 lu st0 n yn ret where
    d: "randn t0 = Some (z1, t1)" "randn t1 = Some (z2, t2)" "Math_random t2 = Some (u0, t3)"
       "Math_random t3 = Some (u, t4)"
    and start: "nuts_start cur gmm a z1 z2 u0 = (H0, lu, st0)"
    and tree: "nuts_tree cur ps gmm t0 = Some ((H0, lu, nuts_round cur gmm a H0 lu st0 n), t3)"
    and run: "nutsGenerator cur ps gmm t0
                = Some ((nout (nuts_round cur gmm a H0 lu st0 n) @ [yn], ret), t4)"
    and n: "1 \<le> n"
    and each: "\<forall>k<n. \<not> stopped (nuts_round cur gmm a H0 lu st0 k)
                 \<and> steps (nuts_round cur gmm a H0 lu st0 k) < maxSteps
                 \<and> steps (nuts_round cur gmm a H0 lu st0 k) = int k
                 \<and> reason (nuts_round cur gmm a H0 lu st0 k) = []"
    and ex: "stopped (nuts_round cur gmm a H0 lu st0 n)
               \<or> maxSteps \<le> steps (nuts_round cur gmm a H0 lu st0 n)"
    and s0: "npath st0 = [cur]" "validCandidates st0 = [cur]"
    and sl: "in_slice H0 lu"
    and idx: "nat \<lfloor>u * real (length (validCandidates (nuts_round cur gmm a H0 lu st0 n)))\<rfloor>
                < length (validCandidates (nuts_round cur gmm a H0 lu st0 n))"
    and yn: "current yn = validCandidates (nuts_round cur gmm a H0 lu st0 n)
                ! nat \<lfloor>u * real (length (validCandidates (nuts_round cur gmm a H0 lu st0 n)))\<rfloor>"
      "accepted yn = Some True" "isFinishedStep yn"
      "path yn = Some (npath (nuts_round cur gmm a H0 lu st0 n))"
      "current ret = current yn"
    by blast
  define R where "R = nuts_round cur gmm a H0 lu st0"
  note tree' = tree [folded R_def] and run' = run [folded R_def] and ex' = ex [folded R_def]
    and idx' = idx [folded R_def] and yn' = yn [folded R_def]
  have before: "\<forall>k<n. \<not> stopped (R k) \<and> steps (R k) < maxSteps"
    using each unfolding R_def by blast
  have pth: "npath (R n) = cur # map (\<lambda>k. round_position a (R k)) [0..<n]"
    unfolding R_def by (simp add: nuts_round_path s0)
  have cands: "validCandidates (R n)
      = cur # map (\<lambda>k. round_position a (R k)) (filter (\<lambda>k. in_slice (round_H gmm a (R k)) lu) [0..<n])"
    unfolding R_def by (simp add: nuts_round_candidates s0)
  have ne: "validCandidates (R n) \<noteq> []" and hd: "hd (validCandidates (R n)) = cur"
    by (simp_all add: cands)
  have lst: "last (nout (R n) @ [yn]) = yn" by simp
  have single: "validCandidates (R n) = [cur] \<Longrightarrow> current (last (nout (R n) @ [yn])) = cur"
  proof -
    assume one: "validCandidates (R n) = [cur]"
    with idx' have "nat \<lfloor>u * real (length (validCandidates (R n)))\<rfloor> = 0"
      by simp
    then show "current (last (nout (R n) @ [yn])) = cur"
      unfolding lst yn'(1) by (simp add: one)
  qed
  have none: "(\<forall>k<n. \<not> in_slice (round_H gmm a (R k)) lu)
                \<longrightarrow> validCandidates (R n) = [cur] \<and> current (last (nout (R n) @ [yn])) = cur"
  proof
    assume "\<forall>k<n. \<not> in_slice (round_H gmm a (R k)) lu"
    then have "filter (\<lambda>k. in_slice (round_H gmm a (R k)) lu) [0..<n] = []"
      by (simp add: filter_empty_conv)
    then have one: "validCandidates (R n) = [cur]"
      by (simp add: cands)
    with single show "validCandidates (R n) = [cur] \<and> current (last (nout (R n) @ [yn])) = cur"
      by simp
  qed
  have only: "tl (validCandidates (R n)) = [] \<longrightarrow> current (last (nout (R n) @ [yn])) = cur"
  proof
    assume "tl (validCandidates (R n)) = []"
    with ne hd have "validCandidates (R n) = [cur]"
      by (cases "validCandidates (R n)") simp_all
    then show "current (last (nout (R n) @ [yn])) = cur" by (rule single)
  qed
  have t: "isFinishedStep (last (nout (R n) @ [yn]))"
    "accepted (last (nout (R n) @ [yn])) = Some True"
    "current (last (nout (R n) @ [yn]))
       = validCandidates (R n) ! nat \<lfloor>u * real (length (validCandidates (R n)))\<rfloor>"
    "path (last (nout (R n) @ [yn])) = Some (npath (R n))"
    "current ret = current (last (nout (R n) @ [yn]))"
    unfolding lst using yn' by simp_all
  from d start tree' run' n before ex' sl pth t(4) cands t(1,2) idx' t(3) none ne hd only t(5)
  show "\<exists>z1 z2 u0 u t1 t2 t3 t4 H0 lu st0 n ys ret.
           randn t0 = Some (z1, t1) \<and> randn t1 = Some (z2, t2)
           \<and> Math_random t2 = Some (u0, t3) \<and> Math_random t3 = Some (u, t4)
           \<and> nuts_start cur gmm (stepSize ps * 0.4) z1 z2 u0 = (H0, lu, st0)
           \<and> nuts_tree cur ps gmm t0
               = Some ((H0, lu, nuts_round cur gmm (stepSize ps * 0.4) H0 lu st0 n), t3)
           \<and> nutsGenerator cur ps gmm t0 = Some ((ys, ret), t4)
           \<and> 1 \<le> n
           \<and> (\<forall>k<n. \<not> stopped (nuts_round cur gmm (stepSize ps * 0.4) H0 lu st0 k)
                    \<and> steps (nuts_round cur gmm (stepSize ps * 0.4) H0 lu st0 k) < maxSteps)
           \<and> (stopped (nuts_round cur gmm (stepSize ps * 0.4) H0 lu st0 n)
               \<or> maxSteps \<le> steps (nuts_round cur gmm (stepSize ps * 0.4) H0 lu st0 n))
           \<and> in_slice H0 lu
           \<and> npath (nuts_round cur gmm (stepSize ps * 0.4) H0 lu st0 n)
               = cur # map (\<lambda>k. round_position (stepSize ps * 0.4)
                                   (nuts_round cur gmm (stepSize ps * 0.4) H0 lu st0 k)) [0..<n]
           \<and> path (last ys) = Some (npath (nuts_round cur gmm (stepSize ps * 0.4) H0 lu st0 n))
           \<and> validCandidates (nuts_round cur gmm (stepSize ps * 0.4) H0 lu st0 n)
               = cur # map (\<lambda>k. round_position (stepSize ps * 0.4)
                                   (nuts_round cur gmm (stepSize ps * 0.4) H0 lu st0 k))
                         (filter (\<lambda>k. in_slice (round_H gmm (stepSize ps * 0.4)
                                      (nuts_round cur gmm (stepSize ps * 0.4) H0 lu st0 k)) lu)
                            [0..<n])
           \<and> isFinishedStep (last ys)
           \<and> accepted (last ys) = Some True
           \<and> nat \<lfloor>u * real (length (validCandidates
                        (nuts_round cur gmm (stepSize ps * 0.4) H0 lu st0 n)))\<rfloor>
               < length (validCandidates (nuts_round cur gmm (stepSize ps * 0.4) H0 lu st0 n))
           \<and> current (last ys)
               = validCandidates (nuts_round cur gmm (stepSize ps * 0.4) H0 lu st0 n)
                 ! nat \<lfloor>u * real (length (validCandidates
                          (nuts_round cur gmm (stepSize ps * 0.4) H0 lu st0 n)))\<rfloor>
           \<and> ((\<forall>k<n. \<not> in_slice (round_H gmm (stepSize ps * 0.4)
                            (nuts_round cur gmm (stepSize ps * 0.4) H0 lu st0 k)) lu)
                \<longrightarrow> validCandidates (nuts_round cur gmm (stepSize ps * 0.4) H0 lu st0 n) = [cur]
                    \<and> current (last ys) = cur)
           \<and> validCandidates (nuts_round cur gmm (stepSize ps * 0.4) H0 lu st0 n) \<noteq> []
           \<and> hd (validCandidates (nuts_round cur gmm (stepSize ps * 0.4) H0 lu st0 n)) = cur
           \<and> (tl (validCandidates (nuts_round cur gmm (stepSize ps * 0.4) H0 lu st0 n)) = []
                \<longrightarrow> current (last ys) = cur)
           \<and> current ret = current (last ys)"
    unfolding R_def a_def by blast
qed

section \<open>A Gibbs run with the first update accepted and the second rejected\<close>

lemma randn_half: "randn (1/2 # 1/2 # t) = Some (- sqrt (2 * ln 2), t)"
  by (simp add: randn_def ln_div)

lemma unit_getLogProb:
  "getLogProb \<lparr>xc = a, yc = b\<rparr> unit_gmm = ln (unit_density a b + 1 / 10 ^ 20)"
  by (simp add: getLogProb_def logProb_body_def getGaussianProps_def unit_gmm_def Let_def
      m00_def m01_def m10_def m11_def unit_density_def)

lemma unit_getGradLogProb:
  "getGradLogProb \<lparr>xc = a, yc = b\<rparr> unit_gmm =
     \<lparr>xc = - (a * (unit_density a b / (unit_density a b + 1 / 10 ^ 20))),
      yc = - (b * (unit_density a b / (unit_density a b + 1 / 10 ^ 20)))\<rparr>"
  by (simp add: getGradLogProb_def gradLogProb_body_def getGaussianProps_def unit_gmm_def Let_def
      m00_def m01_def m10_def m11_def unit_density_def)

lemma unit_density_pos: "0 < unit_density a b"
  by (simp add: unit_density_def)

lemma unit_density_le: "unit_density a b \<le> 1 / 4"
proof -
  have "exp (- ((a * a + b * b) / 2)) \<le> 1"
    by simp
  moreover have "2 \<le> pi" by (rule pi_ge_two)
  ultimately have "exp (- ((a * a + b * b) / 2)) / (2 * pi) \<le> 1 / (2 * 2)"
    by (intro frac_le) simp_all
  then show ?thesis by (simp add: unit_density_def)
qed

lemma unit_density_a0: "unit_density (- sqrt (2 * ln 2)) 0 = 1 / (4 * pi)"
  by (simp add: unit_density_def exp_minus)

lemma unit_density_aa: "unit_density (- sqrt (2 * ln 2)) (- sqrt (2 * ln 2)) = 1 / (8 * pi)"
proof -
  have h: "exp (- (2 * ln (2::real))) = 1 / 4"
    by (simp add: exp_minus exp_of_nat_mult [of 2 "ln 2", simplified] power2_eq_square)
  show ?thesis
    by (simp add: unit_density_def h)
qed


lemma sqrt_2ln2_pos: "0 < sqrt (2 * ln (2::real))"
  by simp

lemma gibbs_reject_y:
  "exp (getLogProb \<lparr>xc = - sqrt (2 * ln 2), yc = - sqrt (2 * ln 2)\<rparr> unit_gmm
        - getLogProb \<lparr>xc = - sqrt (2 * ln 2), yc = 0\<rparr> unit_gmm) \<le> 99 / 100"
proof -
  define A where "A = 1 / (8 * pi) + 1 / 10 ^ 20"
  define B where "B = 1 / (4 * pi) + 1 / 10 ^ 20"
  have A: "0 < A" and B: "0 < B"
    by (simp_all add: A_def B_def add_pos_pos)
  have "pi < 4" by (rule pi_less_4)
  then have "1 / 4 < 1 / pi"
    by (simp add: field_simps)
  then have "100 * A \<le> 99 * B"
    by (simp add: A_def B_def field_simps)
  then have q: "A / B \<le> 99 / 100"
    using B by (simp add: field_simps)
  have "exp (getLogProb \<lparr>xc = - sqrt (2 * ln 2), yc = - sqrt (2 * ln 2)\<rparr> unit_gmm
        - getLogProb \<lparr>xc = - sqrt (2 * ln 2), yc = 0\<rparr> unit_gmm) = exp (ln A - ln B)"
    by (simp only: unit_getLogProb unit_density_a0 unit_density_aa A_def B_def)
  also have "\<dots> = A / B"
    using A B by (simp add: exp_diff)
  finally show ?thesis using q by simp
qed

lemma unit_density_00: "unit_density 0 0 = 1 / (2 * pi)"
  by (simp add: unit_density_def)

lemma gibbs_accept_x:
  "1 / 4 < exp (getLogProb \<lparr>xc = - sqrt (2 * ln 2), yc = 0\<rparr> unit_gmm
                - getLogProb \<lparr>xc = 0, yc = 0\<rparr> unit_gmm)"
proof -
  define A where "A = 1 / (4 * pi) + 1 / 10 ^ 20"
  define B where "B = 1 / (2 * pi) + 1 / 10 ^ 20"
  have A: "0 < A" and B: "0 < B"
    by (simp_all add: A_def B_def add_pos_pos)
  have "4 * A - B = 1 / (2 * pi) + 3 / 10 ^ 20"
    by (simp add: A_def B_def field_simps)
  moreover have "0 < 1 / (2 * pi) + (3 / 10 ^ 20 :: real)"
    by (simp add: add_pos_pos)
  ultimately have "B < 4 * A"
    by linarith
  then have q: "1 / 4 < A / B"
    using B by (simp add: field_simps)
  have "exp (getLogProb \<lparr>xc = - sqrt (2 * ln 2), yc = 0\<rparr> unit_gmm
        - getLogProb \<lparr>xc = 0, yc = 0\<rparr> unit_gmm) = exp (ln A - ln B)"
    by (simp only: unit_getLogProb unit_density_a0 unit_density_00 A_def B_def)
  also have "\<dots> = A / B"
    using A B by (simp add: exp_diff)
  finally show ?thesis using q by simp
qed

text \<open>
  The run of the Gibbs sampler on \<open>unit_gmm\<close> from the origin with step size one in which
  the \<open>x\<close> update is accepted and the \<open>y\<close> update is rejected.
\<close>

lemma gibbs_mixed_run:
  "\<exists>y1 y2 y3 ret.
     gibbsGenerator INITIAL_POINT unit_params unit_gmm [1/2, 1/2, 1/4, 1/2, 1/2, 99/100]
       = Some (([y1, y2, y3], ret), [])
     \<and> current y3 = \<lparr>xc = - sqrt (2 * ln 2), yc = 0\<rparr>
     \<and> proposal y2 = Some \<lparr>xc = - sqrt (2 * ln 2), yc = 0\<rparr>
     \<and> proposal y3 = Some \<lparr>xc = - sqrt (2 * ln 2), yc = - sqrt (2 * ln 2)\<rparr>"
proof -
  have rej: "\<not> 99 / 100
      < exp (getLogProb \<lparr>xc = - sqrt (2 * ln 2), yc = - sqrt (2 * ln 2)\<rparr> unit_gmm
             - getLogProb \<lparr>xc = - sqrt (2 * ln 2), yc = 0\<rparr> unit_gmm)"
    using gibbs_reject_y by simp
  show ?thesis
    using rej gibbs_accept_x
    by (simp add: gibbsGenerator_def randn_half Let_def INITIAL_POINT_def
        unit_params_def bare_result_def no_details_def)
qed

text \<open>
  C4 as it is stated fails for Gibbs: in this run the terminal point is neither the starting
  point nor the proposal of the terminal record; it is the proposal of the \<open>x\<close> update.
\<close>

theorem gibbs_terminal_counterexample:
  "map_option current
     (terminal (gibbsGenerator INITIAL_POINT unit_params unit_gmm [1/2, 1/2, 1/4, 1/2, 1/2, 99/100]))
     = Some \<lparr>xc = - sqrt (2 * ln 2), yc = 0\<rparr>
   \<and> map_option proposal
     (terminal (gibbsGenerator INITIAL_POINT unit_params unit_gmm [1/2, 1/2, 1/4, 1/2, 1/2, 99/100]))
     = Some (Some \<lparr>xc = - sqrt (2 * ln 2), yc = - sqrt (2 * ln 2)\<rparr>)
   \<and> \<lparr>xc = - sqrt (2 * ln 2), yc = 0\<rparr> \<noteq> INITIAL_POINT
   \<and> \<lparr>xc = - sqrt (2 * ln 2), yc = 0\<rparr> \<noteq> \<lparr>xc = - sqrt (2 * ln 2), yc = - sqrt (2 * ln 2)\<rparr>"
proof -
  from gibbs_mixed_run obtain y1 y2 y3 ret where
    "gibbsGenerator INITIAL_POINT unit_params unit_gmm [1/2, 1/2, 1/4, 1/2, 1/2, 99/100]
       = Some (([y1, y2, y3], ret), [])"
    "current y3 = \<lparr>xc = - sqrt (2 * ln 2), yc = 0\<rparr>"
    "proposal y3 = Some \<lparr>xc = - sqrt (2 * ln 2), yc = - sqrt (2 * ln 2)\<rparr>"
    by blast
  then show ?thesis
    using sqrt_2ln2_pos by (simp add: terminal_def INITIAL_POINT_def)
qed

theorem terminal_point_origin_witness:
  "random_run 6 [1/2, 1/2, 1/4, 1/2, 1/2, 99/100]
   \<and> (\<exists>y1 y2 y3 ret t.
        gibbsGenerator INITIAL_POINT unit_params unit_gmm [1/2, 1/2, 1/4, 1/2, 1/2, 99/100]
          = Some (([y1, y2, y3], ret), t)
        \<and> current y3 \<noteq> INITIAL_POINT \<and> Some (current y3) = proposal y2
        \<and> Some (current y3) \<noteq> proposal y3)
   \<and> (\<exists>y1 y2 y3 ret t.
        mhGenerator INITIAL_POINT unit_params unit_gmm [1/2, 1/2, 1/4, 1/2, 1/2, 99/100]
          = Some (([y1, y2, y3], ret), t)
        \<and> (current y3 = INITIAL_POINT \<or> Some (current y3) = proposal y3))
   \<and> (\<exists>ys ret t pth.
        hmcGenerator INITIAL_POINT unit_params unit_gmm [1/2, 1/2, 1/4, 1/2, 1/2, 99/100]
          = Some ((ys, ret), t)
        \<and> path (last ys) = Some pth
        \<and> (current (last ys) = INITIAL_POINT \<or> current (last ys) = last pth))"
proof -
  have h: "random_run 6 [1/2, 1/2, 1/4, 1/2, 1/2, 99/100]"
    by (simp add: random_run_def)
  note t = terminal_point_origin [OF h, of INITIAL_POINT unit_params unit_gmm]
  from t have mh: "\<exists>y1 y2 y3 ret t.
        mhGenerator INITIAL_POINT unit_params unit_gmm [1/2, 1/2, 1/4, 1/2, 1/2, 99/100]
          = Some (([y1, y2, y3], ret), t)
        \<and> (current y3 = INITIAL_POINT \<or> Some (current y3) = proposal y3)"
    by blast
  from t have hmc: "\<exists>ys ret t pth.
        hmcGenerator INITIAL_POINT unit_params unit_gmm [1/2, 1/2, 1/4, 1/2, 1/2, 99/100]
          = Some ((ys, ret), t)
        \<and> path (last ys) = Some pth
        \<and> (current (last ys) = INITIAL_POINT \<or> current (last ys) = last pth)"
    by blast
  from t obtain y1 y2 y3 ret t' where
    g: "gibbsGenerator INITIAL_POINT unit_params unit_gmm [1/2, 1/2, 1/4, 1/2, 1/2, 99/100]
          = Some (([y1, y2, y3], ret), t')"
       "current y3 = INITIAL_POINT \<or> Some (current y3) = proposal y2
          \<or> Some (current y3) = proposal y3"
    by blast
  from gibbs_mixed_run g(1) have v:
    "current y3 = \<lparr>xc = - sqrt (2 * ln 2), yc = 0\<rparr>"
    "proposal y3 = Some \<lparr>xc = - sqrt (2 * ln 2), yc = - sqrt (2 * ln 2)\<rparr>"
    by auto
  have n: "current y3 \<noteq> INITIAL_POINT" "Some (current y3) \<noteq> proposal y3"
    using sqrt_2ln2_pos by (simp_all add: v INITIAL_POINT_def)
  with g(2) have "Some (current y3) = proposal y2" by blast
  with g(1) n have gb: "\<exists>y1 y2 y3 ret t.
        gibbsGenerator INITIAL_POINT unit_params unit_gmm [1/2, 1/2, 1/4, 1/2, 1/2, 99/100]
          = Some (([y1, y2, y3], ret), t)
        \<and> current y3 \<noteq> INITIAL_POINT \<and> Some (current y3) = proposal y2
        \<and> Some (current y3) \<noteq> proposal y3"
    by blast
  from h gb mh hmc show ?thesis by blast
qed

section \<open>A NUTS run that diverges in its first round\<close>

lemma unit_density_east: "1 / 16 \<le> unit_density 1 0"
proof -
  have "1 + (- (1 / 2)) \<le> exp (- (1 / 2) :: real)"
    by (rule exp_ge_add_one_self)
  then have e: "1 / 2 \<le> exp (- (1 / 2) :: real)" by simp
  have p: "2 * pi \<le> 8" using pi_less_4 by simp
  have "1 / 2 / 8 \<le> exp (- (1 / 2) :: real) / (2 * pi)"
    using e p by (intro frac_le) simp_all
  then show ?thesis by (simp add: unit_density_def)
qed

lemma east_ratio_bounds: "1 / 2 \<le> east_ratio" "east_ratio \<le> 1"
proof -
  have d: "1 / 16 \<le> unit_density 1 0" by (rule unit_density_east)
  then have pos: "0 < unit_density 1 0 + 1 / 10 ^ 20" by simp
  have "unit_density 1 0 + 1 / 10 ^ 20 \<le> 2 * unit_density 1 0"
    using d by simp
  then show "1 / 2 \<le> east_ratio"
    unfolding east_ratio_def using pos by (simp add: field_simps)
  show "east_ratio \<le> 1"
    unfolding east_ratio_def using pos d by (simp add: field_simps)
qed

text \<open>
  The sign of the force: at \<open>east_point\<close>, east of the only mode of \<open>unit_gmm\<close>, the
  force of the code points east, away from the mode.
\<close>

lemma hmc_force_points_away: "0 < xc (hmc_force unit_gmm east_point)"
proof -
  have "xc (hmc_force unit_gmm east_point) = east_ratio"
    by (simp add: hmc_force_def east_point_def unit_getGradLogProb east_ratio_def)
  with east_ratio_bounds(1) show ?thesis by simp
qed

lemma east_startH_bound: "east_startH \<le> 15"
proof -
  have d: "1 / 16 \<le> unit_density 1 0 + 1 / 10 ^ 20"
    using unit_density_east by simp
  have "ln (16::real) \<le> 16 - 1"
    by (rule ln_le_minus_one) simp
  then have "- 15 \<le> ln (1 / 16 :: real)"
    by (simp add: ln_div)
  also have "\<dots> \<le> ln (unit_density 1 0 + 1 / 10 ^ 20)"
    using d by simp
  finally show ?thesis by (simp add: east_startH_def)
qed

lemma east_first_energy:
  "1000 < nuts_currH unit_gmm 400 east_first east_momentum - east_startH"
proof -
  define X where "X = 1 + 80000 * east_ratio"
  define Rq where "Rq = unit_density X 0 / (unit_density X 0 + 1 / 10 ^ 20)"
  define px where "px = 200 * east_ratio + 200 * (X * Rq)"
  have X: "0 \<le> X" using east_ratio_bounds(1) by (simp add: X_def)
  have Rq: "0 \<le> Rq"
    unfolding Rq_def using unit_density_pos [of X 0] by simp
  have "0 \<le> X * Rq" using X Rq by simp
  then have px: "100 \<le> px"
    using east_ratio_bounds(1) by (simp add: px_def)
  then have "100 * 100 \<le> px * px"
    by (intro mult_mono) simp_all
  then have K: "5000 \<le> px * px / 2" by simp
  have "unit_density X 0 + 1 / 10 ^ 20 \<le> 1"
    using unit_density_le [of X 0] by simp
  moreover have "0 < unit_density X 0 + 1 / 10 ^ 20"
    using unit_density_pos [of X 0] by simp
  ultimately have U: "0 \<le> - ln (unit_density X 0 + 1 / 10 ^ 20)"
    by simp
  have H: "nuts_currH unit_gmm 400 east_first east_momentum
             = - ln (unit_density X 0 + 1 / 10 ^ 20) + px * px / 2"
    by (simp add: nuts_currH_def east_first_def east_momentum_def unit_getLogProb
        unit_getGradLogProb Let_def X_def [symmetric] Rq_def px_def)
  show ?thesis
    unfolding H using K U east_startH_bound by simp
qed


lemma east_first_outside_slice:
  "\<not> in_slice (nuts_currH unit_gmm 400 east_first east_momentum) (slice_level (1 / 2) east_startH)"
proof -
  have "ln (2::real) \<le> 2 - 1"
    by (rule ln_le_minus_one) simp
  then have "- 1 \<le> ln (1 / 2 :: real)"
    by (simp add: ln_div)
  with east_first_energy show ?thesis
    by (simp add: in_slice_def slice_level_def)
qed

lemma east_dot: "\<not> nuts_dot east_point east_first east_momentum < 0"
proof -
  have "0 \<le> 80000 * east_ratio * (200 * east_ratio)"
    using east_ratio_bounds(1) by simp
  then show ?thesis
    by (simp add: nuts_dot_def east_point_def east_first_def east_momentum_def Let_def)
qed

lemma east_start:
  "nuts_start east_point unit_gmm 400 0 0 (1 / 2)
     = (east_startH, slice_level (1 / 2) east_startH,
        \<lparr>nq = east_point, np = east_momentum, ngrad = getGradLogProb east_point unit_gmm,
         stopped = False, steps = 0, reason = [], npath = [east_point],
         validCandidates = [east_point],
         nout = [(bare_result east_point
                    (no_details\<lparr>currentH := Some east_startH, phase := Some ''momentum''\<rparr>) False)
                  \<lparr>delay := Some 1500\<rparr>]\<rparr>)"
  by (simp add: nuts_start_def Let_def kinetic_def east_startH_def east_momentum_def
      east_ratio_def half_momentum_step_def east_point_def unit_getLogProb unit_getGradLogProb)

lemma east_position: "position_step 400 east_point east_momentum = east_first"
  by (simp add: position_step_def east_point_def east_momentum_def east_first_def)

lemma east_body:
  assumes "nq s = east_point" "np s = east_momentum" "validCandidates s = [east_point]"
    "npath s = [east_point]"
  shows "stopped (nuts_body east_point unit_gmm 400 east_startH (slice_level (1 / 2) east_startH) s)"
    "validCandidates (nuts_body east_point unit_gmm 400 east_startH (slice_level (1 / 2) east_startH) s)
       = [east_point]"
    "npath (nuts_body east_point unit_gmm 400 east_startH (slice_level (1 / 2) east_startH) s)
       = [east_point, east_first]"
    "reason (nuts_body east_point unit_gmm 400 east_startH (slice_level (1 / 2) east_startH) s)
       = ''Divergence''"
  using assms east_first_energy east_first_outside_slice east_dot
  by (simp_all add: nuts_body_def Let_def east_position)

lemma east_tree:
  "\<exists>st. nuts_tree east_point long_params unit_gmm [1/2, 1/4, 1/2, 1/4, 1/2, 1/2]
           = Some ((east_startH, slice_level (1 / 2) east_startH, st), [1/2])
        \<and> stopped st \<and> validCandidates st = [east_point]
        \<and> npath st = [east_point, east_first] \<and> reason st = ''Divergence''"
proof -
  define st0 where "st0 = snd (snd (nuts_start east_point unit_gmm 400 0 0 (1 / 2)))"
  define st1 where
    "st1 = nuts_body east_point unit_gmm 400 east_startH (slice_level (1 / 2) east_startH) st0"
  have s0: "nq st0 = east_point" "np st0 = east_momentum" "validCandidates st0 = [east_point]"
    "npath st0 = [east_point]" "\<not> stopped st0" "steps st0 < maxSteps"
    by (simp_all add: st0_def east_start maxSteps_def)
  note b = east_body [OF s0(1-4), folded st1_def]
  have "nuts_loop east_point unit_gmm 400 east_startH (slice_level (1 / 2) east_startH) st0
          = nuts_loop east_point unit_gmm 400 east_startH (slice_level (1 / 2) east_startH) st1"
    unfolding st1_def using s0(5,6) by (rule nuts_loop_step)
  also have "\<dots> = st1"
    using b(1) by (simp add: nuts_loop_done)
  finally have loop:
    "nuts_loop east_point unit_gmm 400 east_startH (slice_level (1 / 2) east_startH) st0 = st1" .
  have "nuts_tree east_point long_params unit_gmm [1/2, 1/4, 1/2, 1/4, 1/2, 1/2]
          = Some ((east_startH, slice_level (1 / 2) east_startH, st1), [1/2])"
    using loop
    by (simp add: nuts_tree_def randn_quarter Let_def long_params_def east_start st0_def)
  with b show ?thesis by blast
qed

text \<open>
  C5 as it is stated fails: in this run the tree-building loop makes one round, whose
  position is outside the slice, so no position that the loop collects is a valid candidate
  and the candidates are the starting point alone; the terminal record has
  \<open>accepted = true\<close> all the same (and the starting point as its point).
\<close>

theorem nuts_accepts_without_candidate:
  "map_option npath
     (tree_state (nuts_tree east_point long_params unit_gmm [1/2, 1/4, 1/2, 1/4, 1/2, 1/2]))
     = Some [east_point, east_first]
   \<and> \<not> in_slice (nuts_currH unit_gmm 400 east_first east_momentum)
          (slice_level (1 / 2) east_startH)
   \<and> map_option validCandidates
     (tree_state (nuts_tree east_point long_params unit_gmm [1/2, 1/4, 1/2, 1/4, 1/2, 1/2]))
     = Some [east_point]
   \<and> map_option accepted
     (terminal (nutsGenerator east_point long_params unit_gmm [1/2, 1/4, 1/2, 1/4, 1/2, 1/2]))
     = Some (Some True)
   \<and> map_option current
     (terminal (nutsGenerator east_point long_params unit_gmm [1/2, 1/4, 1/2, 1/4, 1/2, 1/2]))
     = Some east_point"
proof -
  from east_tree obtain st where
    tree: "nuts_tree east_point long_params unit_gmm [1/2, 1/4, 1/2, 1/4, 1/2, 1/2]
           = Some ((east_startH, slice_level (1 / 2) east_startH, st), [1/2])"
    and st: "validCandidates st = [east_point]" "npath st = [east_point, east_first]"
    by blast
  have sel: "nuts_select east_point [east_point] [1/2] = Some ((east_point, True), [])"
    by (simp add: nuts_select_def js_index_def Let_def)
  have gen: "terminal (nutsGenerator east_point long_params unit_gmm [1/2, 1/4, 1/2, 1/4, 1/2, 1/2])
     = Some ((bare_result east_point
                (no_details\<lparr>currentH := Some east_startH, phase := Some ''accept''\<rparr>) True)
              \<lparr>path := Some (npath st), accepted := Some True, delay := Some 2000\<rparr>)"
    by (simp add: nutsGenerator_def tree st sel terminal_def Let_def)
  show ?thesis
    using east_first_outside_slice
    by (simp add: tree tree_state_def st gen bare_result_def)
qed


theorem nuts_selection_witness:
  "random_run 6 [1/2, 1/4, 1/2, 1/4, 1/2, 1/2]
   \<and> \<not> in_slice (nuts_currH unit_gmm 400 east_first east_momentum)
          (slice_level (1 / 2) east_startH)
   \<and> (\<exists>ys ret t.
        nutsGenerator east_point long_params unit_gmm [1/2, 1/4, 1/2, 1/4, 1/2, 1/2]
          = Some ((ys, ret), t)
        \<and> path (last ys) = Some [east_point, east_first]
        \<and> isFinishedStep (last ys) \<and> accepted (last ys) = Some True
        \<and> current (last ys) = east_point)"
proof -
  have h: "random_run 6 [1/2, 1/4, 1/2, 1/4, 1/2, 1/2]"
    by (simp add: random_run_def)
  from nuts_selection [OF h, of east_point unit_gmm long_params, THEN conjunct1]
  obtain H0 lu st0 n t3 t4 ys ret where
    tree: "nuts_tree east_point long_params unit_gmm [1/2, 1/4, 1/2, 1/4, 1/2, 1/2]
             = Some ((H0, lu, nuts_round east_point unit_gmm (stepSize long_params * 0.4) H0 lu st0 n), t3)"
    and run: "nutsGenerator east_point long_params unit_gmm [1/2, 1/4, 1/2, 1/4, 1/2, 1/2]
             = Some ((ys, ret), t4)"
    and r: "isFinishedStep (last ys)" "accepted (last ys) = Some True"
      "path (last ys)
         = Some (npath (nuts_round east_point unit_gmm (stepSize long_params * 0.4) H0 lu st0 n))"
      "tl (validCandidates (nuts_round east_point unit_gmm (stepSize long_params * 0.4) H0 lu st0 n)) = []
         \<longrightarrow> current (last ys) = east_point"
    by blast
  from east_tree tree have
    "validCandidates (nuts_round east_point unit_gmm (stepSize long_params * 0.4) H0 lu st0 n)
       = [east_point]"
    "npath (nuts_round east_point unit_gmm (stepSize long_params * 0.4) H0 lu st0 n)
       = [east_point, east_first]"
    by auto
  with r(3,4) have "current (last ys) = east_point" "path (last ys) = Some [east_point, east_first]"
    by simp_all
  with h run r(1,2) east_first_outside_slice show ?thesis by blast
qed


end
